theory Spec2Isabelle
  imports Main "HOL-Library.AList" "HOL-Library.Sublist"
begin

section \<open>Python values, heap objects and errors\<close>

text \<open>
  The module \<^verbatim>\<open>dbgap/dbgap_study_information.py\<close> works on Python objects that are
  shared by reference: a \<^verbatim>\<open>StudyIdentifier\<close> hands out its own attribute dictionary,
  and \<^verbatim>\<open>biocaddie_json\<close> builds a fresh \<^verbatim>\<open>JsonObj\<close> from parts of the raw
  document. Values are therefore either immutable scalars or references into a heap of
  mutable objects. The heap is a list of objects, an address is an index into it, and a
  new object is appended at the end. Floating point numbers are left out.
\<close>

type_synonym addr = nat

datatype pyval = PNone | PBool bool | PInt int | PStr string | PRef addr

datatype pyobj =
    JsonObj "(string \<times> pyval) list"
  | PyDict "(string \<times> pyval) list"
  | PyList "pyval list"
  | Instance addr

text \<open>
  \<open>JsonObj kvs\<close> is a \<^verbatim>\<open>jsonasobj.JsonObj\<close> with the attributes \<open>kvs\<close> in insertion
  order; \<open>PyDict\<close> and \<open>PyList\<close> are the built-in containers; \<open>Instance d\<close> is an
  instance of \<^verbatim>\<open>StudyIdentifier\<close> whose \<^verbatim>\<open>__dict__\<close> is the dictionary at address
  \<open>d\<close>.
\<close>

type_synonym heap = "pyobj list"

datatype error = AttributeError string | TypeError | ValueError

text \<open>A computation takes the heap and returns a value or an exception, and the new heap.\<close>

type_synonym 'a py = "heap \<Rightarrow> (error + 'a) \<times> heap"

definition return_py :: "'a \<Rightarrow> 'a py" where
  "return_py x h = (Inr x, h)"

definition bind_py :: "'a py \<Rightarrow> ('a \<Rightarrow> 'b py) \<Rightarrow> 'b py" where
  "bind_py m f h = (case m h of (Inl e, h') \<Rightarrow> (Inl e, h') | (Inr x, h') \<Rightarrow> f x h')"

text \<open>An expression that does not touch the heap: its value or its exception.\<close>

definition lift_py :: "error + 'a \<Rightarrow> 'a py" where
  "lift_py r h = (r, h)"

definition deref :: "heap \<Rightarrow> addr \<Rightarrow> pyobj option" where
  "deref h a = (if a < length h then Some (h ! a) else None)"

definition new_object :: "pyobj \<Rightarrow> pyval py" where
  "new_object ob h = (Inr (PRef (length h)), h @ [ob])"

text \<open>
  Attribute read \<^verbatim>\<open>v.name\<close>. A \<^verbatim>\<open>JsonObj\<close> and a class instance look the name up in
  their attribute dictionary; every other value raises \<^verbatim>\<open>AttributeError\<close>. Attributes
  of classes (methods, properties) are not modelled: none of the names this module reads
  or writes in this way is one.
\<close>

definition attr_lookup :: "heap \<Rightarrow> pyval \<Rightarrow> string \<Rightarrow> error + pyval" where
  "attr_lookup h v name =
     (case v of
        PRef a \<Rightarrow>
          (case deref h a of
             Some (JsonObj kvs) \<Rightarrow>
               (case map_of kvs name of Some x \<Rightarrow> Inr x | None \<Rightarrow> Inl (AttributeError name))
           | Some (Instance d) \<Rightarrow>
               (case deref h d of
                  Some (PyDict kvs) \<Rightarrow>
                    (case map_of kvs name of Some x \<Rightarrow> Inr x | None \<Rightarrow> Inl (AttributeError name))
                | _ \<Rightarrow> Inl (AttributeError name))
           | _ \<Rightarrow> Inl (AttributeError name))
      | _ \<Rightarrow> Inl (AttributeError name))"

definition getattr :: "pyval \<Rightarrow> string \<Rightarrow> pyval py" where
  "getattr v name h = (attr_lookup h v name, h)"

text \<open>Attribute write \<^verbatim>\<open>v.name = x\<close>: an existing key keeps its place, a new one goes last.\<close>

definition setattr :: "pyval \<Rightarrow> string \<Rightarrow> pyval \<Rightarrow> unit py" where
  "setattr v name x h =
     (case v of
        PRef a \<Rightarrow>
          (case deref h a of
             Some (JsonObj kvs) \<Rightarrow> (Inr (), h[a := JsonObj (AList.update name x kvs)])
           | Some (Instance d) \<Rightarrow>
               (case deref h d of
                  Some (PyDict kvs) \<Rightarrow> (Inr (), h[d := PyDict (AList.update name x kvs)])
                | _ \<Rightarrow> (Inl (AttributeError name), h))
           | _ \<Rightarrow> (Inl (AttributeError name), h))
      | _ \<Rightarrow> (Inl (AttributeError name), h))"

text \<open>
  Subscript write \<^verbatim>\<open>v[key] = x\<close> with a string key. \<^verbatim>\<open>JsonObj.__setitem__\<close> stores into
  the attribute dictionary; a list, a scalar and a \<^verbatim>\<open>StudyIdentifier\<close> raise
  \<^verbatim>\<open>TypeError\<close>.
\<close>

definition setitem :: "pyval \<Rightarrow> string \<Rightarrow> pyval \<Rightarrow> unit py" where
  "setitem v key x h =
     (case v of
        PRef a \<Rightarrow>
          (case deref h a of
             Some (JsonObj kvs) \<Rightarrow> (Inr (), h[a := JsonObj (AList.update key x kvs)])
           | Some (PyDict kvs) \<Rightarrow> (Inr (), h[a := PyDict (AList.update key x kvs)])
           | _ \<Rightarrow> (Inl TypeError, h))
      | _ \<Rightarrow> (Inl TypeError, h))"

text \<open>\<^verbatim>\<open>s + v\<close> for a string \<open>s\<close>: only another string can be appended.\<close>

fun str_add :: "string \<Rightarrow> pyval \<Rightarrow> error + pyval" where
  "str_add s (PStr t) = Inr (PStr (s @ t))"
| "str_add s v = Inl TypeError"

text \<open>
  \<^verbatim>\<open>for x in v\<close> over a list object. The parameter this is used on is annotated
  \<^verbatim>\<open>List[str]\<close>, and only list objects are modelled: for any other value the model
  answers \<^verbatim>\<open>TypeError\<close>, where Python would also take other iterables. What is proved
  about the elements assumes a list.
\<close>

definition list_items :: "heap \<Rightarrow> pyval \<Rightarrow> error + pyval list" where
  "list_items h v =
     (case v of
        PRef a \<Rightarrow> (case deref h a of Some (PyList xs) \<Rightarrow> Inr xs | _ \<Rightarrow> Inl TypeError)
      | _ \<Rightarrow> Inl TypeError)"

definition iterate :: "pyval \<Rightarrow> pyval list py" where
  "iterate v h = (list_items h v, h)"

text \<open>
  A list comprehension \<^verbatim>\<open>[f(x) for x in xs]\<close> whose body does not touch the heap: the
  body is evaluated on each element in order, and the first exception ends it.
\<close>

fun list_comp :: "('a \<Rightarrow> error + 'b) \<Rightarrow> 'a list \<Rightarrow> error + 'b list" where
  "list_comp f [] = Inr []"
| "list_comp f (x # xs) =
     (case f x of
        Inl e \<Rightarrow> Inl e
      | Inr y \<Rightarrow> (case list_comp f xs of Inl e \<Rightarrow> Inl e | Inr ys \<Rightarrow> Inr (y # ys)))"


section \<open>String formatting\<close>

definition digit_char :: "nat \<Rightarrow> char" where
  "digit_char d = ''0123456789'' ! d"

text \<open>The decimal numeral of a natural number, most significant digit first.\<close>

fun decimal :: "nat \<Rightarrow> string" where
  "decimal n =
     (if n < 10 then [digit_char n] else decimal (n div 10) @ [digit_char (n mod 10)])"

declare decimal.simps [simp del]

text \<open>
  The interpreter refuses to turn an integer of more than
  \<^verbatim>\<open>sys.int_info.default_max_str_digits\<close> decimal digits into text: the conversion
  raises \<^verbatim>\<open>ValueError\<close>. The sign is not counted. The module does not change the
  limit, so it is the default of CPython, 4300.
\<close>

definition int_max_str_digits :: nat where
  "int_max_str_digits = 4300"

text \<open>
  The text that \<^verbatim>\<open>'%0<w>d'\<close> lays out for an integer \<open>i\<close>: the sign, then zeros up
  to a total width of \<open>w\<close>, then the digits. The width is a minimum: a longer numeral
  is not cut. \<^verbatim>\<open>'%d'\<close> is the case \<open>w = 0\<close>.
\<close>

definition zero_fill :: "nat \<Rightarrow> int \<Rightarrow> string" where
  "zero_fill w i =
     (let sign = (if i < 0 then ''-'' else '''');
          digits = decimal (nat \<bar>i\<bar>)
      in sign @ replicate (w - (length sign + length digits)) (CHR ''0'') @ digits)"

text \<open>
  \<^verbatim>\<open>'%0<w>d' % i\<close>: the integer is converted first, which fails above the limit, and
  the numeral is then laid out.
\<close>

definition format_d :: "nat \<Rightarrow> int \<Rightarrow> error + string" where
  "format_d w i =
     (if int_max_str_digits < length (decimal (nat \<bar>i\<bar>)) then Inl ValueError
      else Inr (zero_fill w i))"

text \<open>\<^verbatim>\<open>%d\<close> takes a number (a \<^verbatim>\<open>bool\<close> counts as 0 or 1) and raises \<^verbatim>\<open>TypeError\<close> otherwise.\<close>

fun percent_d :: "nat \<Rightarrow> pyval \<Rightarrow> error + string" where
  "percent_d w (PInt i) = format_d w i"
| "percent_d w (PBool b) = format_d w (if b then 1 else 0)"
| "percent_d w v = Inl TypeError"

text \<open>
  \<^verbatim>\<open>%s\<close> is \<^verbatim>\<open>str(v)\<close>, for an integer under the same limit. The module applies it
  to strings it has just stored; the text of a heap object is not modelled.
\<close>

fun percent_s :: "pyval \<Rightarrow> error + string" where
  "percent_s (PStr s) = Inr s"
| "percent_s (PInt i) = format_d 0 i"
| "percent_s (PBool b) = Inr (if b then ''True'' else ''False'')"
| "percent_s PNone = Inr ''None''"
| "percent_s (PRef a) = Inr ''<object>''"


section \<open>StudyIdentifier\<close>

text \<open>Creating an instance allocates its attribute dictionary and the instance itself.\<close>

definition new_instance :: "pyval py" where
  "new_instance h = (Inr (PRef (Suc (length h))), h @ [PyDict [], Instance (length h)])"

text \<open>
  \<^verbatim>\<open>StudyIdentifier(id_, v, p)\<close>: the new instance after \<^verbatim>\<open>__init__\<close> has run
  (\<open>id'\<close> stands for \<^verbatim>\<open>id_\<close>). The method itself returns nothing, as its annotation
  \<^verbatim>\<open>-> None\<close> says: the three strings that its docstring lists under
  \<^verbatim>\<open>:return:\<close> are attributes of the instance. In a format with two conversions
  the arguments are converted from left to right.
  \<^verbatim>\<open>
  self.studyid = 'phs%06d' % id_
  self.versionedid = '%s.v%d' % (self.studyid, v)
  self.fullid = '%s.p%d' % (self.versionedid, p)
  \<close>
\<close>

definition StudyIdentifier :: "pyval \<Rightarrow> pyval \<Rightarrow> pyval \<Rightarrow> pyval py" where
  "StudyIdentifier id' v p =
     bind_py new_instance (\<lambda>self.
     bind_py (lift_py (percent_d 6 id')) (\<lambda>d1.
     bind_py (setattr self ''studyid'' (PStr (''phs'' @ d1))) (\<lambda>_.
     bind_py (getattr self ''studyid'') (\<lambda>a1.
     bind_py (lift_py (percent_s a1)) (\<lambda>s1.
     bind_py (lift_py (percent_d 0 v)) (\<lambda>d2.
     bind_py (setattr self ''versionedid'' (PStr (s1 @ ''.v'' @ d2))) (\<lambda>_.
     bind_py (getattr self ''versionedid'') (\<lambda>a2.
     bind_py (lift_py (percent_s a2)) (\<lambda>s2.
     bind_py (lift_py (percent_d 0 p)) (\<lambda>d3.
     bind_py (setattr self ''fullid'' (PStr (s2 @ ''.p'' @ d3))) (\<lambda>_.
     return_py self)))))))))))"

text \<open>The property \<^verbatim>\<open>identifiers\<close> returns \<^verbatim>\<open>self.__dict__\<close>: the dictionary itself, no copy.\<close>

definition identifiers :: "pyval \<Rightarrow> pyval py" where
  "identifiers self h =
     (case self of
        PRef a \<Rightarrow>
          (case deref h a of
             Some (Instance d) \<Rightarrow> (Inr (PRef d), h)
           | _ \<Rightarrow> (Inl (AttributeError ''identifiers''), h))
      | _ \<Rightarrow> (Inl (AttributeError ''identifiers''), h))"


section \<open>biocaddie_json\<close>

text \<open>
  The prefix \<^verbatim>\<open>DBGAP\<close> comes from \<^verbatim>\<open>dbgap.constants\<close>; it is a string and a
  parameter here. One line of the function is one group of steps:
  \<^verbatim>\<open>
  study = raw_json.GaPExchange.Studies.Study
  study_entry = jsonasobj.JsonObj()
  study_entry['@type'] = 'Study'
  study_entry.identifierInfo = [dict(identifier=DBGAP + study.accession, identifierScheme="dbGaP")]
  study_entry.title = study.Configuration.StudyNameEntrez
  study_entry.description = study.Configuration.StudyNameReportPage
  study_entry.study_types = study.Configuration.StudyTypes.StudyType
  study_entry.resultsIn = [DBGAP + pht for pht in pht_entries]
  return study_entry
  \<close>
\<close>

definition biocaddie_json :: "string \<Rightarrow> pyval \<Rightarrow> pyval \<Rightarrow> pyval py" where
  "biocaddie_json DBGAP raw_json pht_entries =
     bind_py (getattr raw_json ''GaPExchange'') (\<lambda>gap.
     bind_py (getattr gap ''Studies'') (\<lambda>studies.
     bind_py (getattr studies ''Study'') (\<lambda>study.
     bind_py (new_object (JsonObj [])) (\<lambda>study_entry.
     bind_py (setitem study_entry ''@type'' (PStr ''Study'')) (\<lambda>_.
     bind_py (getattr study ''accession'') (\<lambda>accession.
     bind_py (lift_py (str_add DBGAP accession)) (\<lambda>identifier.
     bind_py (new_object (PyDict [(''identifier'', identifier),
                                  (''identifierScheme'', PStr ''dbGaP'')])) (\<lambda>info.
     bind_py (new_object (PyList [info])) (\<lambda>infos.
     bind_py (setattr study_entry ''identifierInfo'' infos) (\<lambda>_.
     bind_py (getattr study ''Configuration'') (\<lambda>c1.
     bind_py (getattr c1 ''StudyNameEntrez'') (\<lambda>title.
     bind_py (setattr study_entry ''title'' title) (\<lambda>_.
     bind_py (getattr study ''Configuration'') (\<lambda>c2.
     bind_py (getattr c2 ''StudyNameReportPage'') (\<lambda>description.
     bind_py (setattr study_entry ''description'' description) (\<lambda>_.
     bind_py (getattr study ''Configuration'') (\<lambda>c3.
     bind_py (getattr c3 ''StudyTypes'') (\<lambda>types.
     bind_py (getattr types ''StudyType'') (\<lambda>study_types.
     bind_py (setattr study_entry ''study_types'' study_types) (\<lambda>_.
     bind_py (iterate pht_entries) (\<lambda>phts.
     bind_py (lift_py (list_comp (str_add DBGAP) phts)) (\<lambda>prefixed.
     bind_py (new_object (PyList prefixed)) (\<lambda>results.
     bind_py (setattr study_entry ''resultsIn'' results) (\<lambda>_.
     return_py study_entry))))))))))))))))))))))))"


section \<open>Notions used to state the properties\<close>

text \<open>The field of a document reached by a path of attribute names, in a given heap.\<close>

fun field_at :: "heap \<Rightarrow> pyval \<Rightarrow> string list \<Rightarrow> error + pyval" where
  "field_at h v [] = Inr v"
| "field_at h v (k # ks) =
     (case attr_lookup h v k of Inl e \<Rightarrow> Inl e | Inr w \<Rightarrow> field_at h w ks)"

text \<open>The four fields of the raw document that \<open>biocaddie_json\<close> reads.\<close>

definition accession_path :: "string list" where
  "accession_path = [''GaPExchange'', ''Studies'', ''Study'', ''accession'']"

definition title_path :: "string list" where
  "title_path = [''GaPExchange'', ''Studies'', ''Study'', ''Configuration'', ''StudyNameEntrez'']"

definition description_path :: "string list" where
  "description_path =
     [''GaPExchange'', ''Studies'', ''Study'', ''Configuration'', ''StudyNameReportPage'']"

definition study_types_path :: "string list" where
  "study_types_path =
     [''GaPExchange'', ''Studies'', ''Study'', ''Configuration'', ''StudyTypes'', ''StudyType'']"

text \<open>
  The JSON text a value stands for, read off the heap down to a given depth (\<open>JCut\<close>
  where the depth is used up, so that the function is total on cyclic heaps too). Two
  values are structurally equal in a heap when their trees agree at every depth.
\<close>

datatype json =
    JNull | JBool bool | JInt int | JStr string
  | JArr "json list" | JObject "(string \<times> json) list" | JCut

fun snapshot :: "nat \<Rightarrow> heap \<Rightarrow> pyval \<Rightarrow> json" where
  "snapshot n h PNone = JNull"
| "snapshot n h (PBool b) = JBool b"
| "snapshot n h (PInt i) = JInt i"
| "snapshot n h (PStr s) = JStr s"
| "snapshot 0 h (PRef a) = JCut"
| "snapshot (Suc n) h (PRef a) =
     (case deref h a of
        None \<Rightarrow> JCut
      | Some (JsonObj kvs) \<Rightarrow> JObject (map (\<lambda>kv. (fst kv, snapshot n h (snd kv))) kvs)
      | Some (PyDict kvs) \<Rightarrow> JObject (map (\<lambda>kv. (fst kv, snapshot n h (snd kv))) kvs)
      | Some (PyList xs) \<Rightarrow> JArr (map (snapshot n h) xs)
      | Some (Instance d) \<Rightarrow> snapshot n h (PRef d))"

text \<open>The value of a decimal numeral, and the six digits of a number below \<open>10\<^sup>6\<close>.\<close>

definition digit_value :: "char \<Rightarrow> nat" where
  "digit_value c = of_char c - 48"

definition decimal_value :: "string \<Rightarrow> nat" where
  "decimal_value s = foldl (\<lambda>acc c. 10 * acc + digit_value c) 0 s"

definition spec_zero_pad6 :: "nat \<Rightarrow> string" where
  "spec_zero_pad6 n = map (\<lambda>k. digit_char (n div 10 ^ k mod 10)) [5, 4, 3, 2, 1, 0]"

text \<open>
  The example document of the specification, as \<^verbatim>\<open>jsonasobj\<close> loads it: the
  raw document is at address 0 and the list of pht entries at address 7.
\<close>

definition example_heap :: heap where
  "example_heap =
     [JsonObj [(''GaPExchange'', PRef 1)],
      JsonObj [(''Studies'', PRef 2)],
      JsonObj [(''Study'', PRef 3)],
      JsonObj [(''accession'', PStr ''phs000123.v4.p5''), (''Configuration'', PRef 4)],
      JsonObj [(''StudyNameEntrez'', PStr ''Example Study''),
               (''StudyNameReportPage'', PStr ''An example.''),
               (''StudyTypes'', PRef 5)],
      JsonObj [(''StudyType'', PRef 6)],
      PyList [PStr ''Case Set''],
      PyList [PStr ''pht000111'', PStr ''pht000112'']]"

text \<open>An object that cannot answer a read of the attribute \<open>k\<close>.\<close>

fun lacks :: "string \<Rightarrow> pyobj \<Rightarrow> bool" where
  "lacks k (JsonObj kvs) = (map_of kvs k = None)"
| "lacks k (PyDict kvs) = (map_of kvs k = None)"
| "lacks k (PyList xs) = True"
| "lacks k (Instance d) = False"


section \<open>Decimal numerals\<close>

lemma digit_char_0: "digit_char 0 = CHR ''0''"
  by (simp add: digit_char_def)

lemma digit_value_digit_char: "d < 10 \<Longrightarrow> digit_value (digit_char d) = d"
proof -
  assume "d < 10"
  then have "d \<in> {0, 1, 2, 3, 4, 5, 6, 7, 8, 9}" by auto
  then show ?thesis
    by (auto simp: digit_value_def digit_char_def)
qed

lemma decimal_small: "n < 10 \<Longrightarrow> decimal n = [digit_char n]"
  by (subst decimal.simps) simp

lemma decimal_big: "\<not> n < 10 \<Longrightarrow> decimal n = decimal (n div 10) @ [digit_char (n mod 10)]"
  by (subst decimal.simps) simp

lemma decimal_nonempty: "decimal n \<noteq> []"
  by (cases "n < 10") (simp_all add: decimal_small decimal_big)

lemma decimal_value_snoc: "decimal_value (s @ [c]) = 10 * decimal_value s + digit_value c"
  by (simp add: decimal_value_def)

text \<open>Reading a numeral back gives the number: no digit is lost or changed.\<close>

lemma decimal_value_decimal: "decimal_value (decimal n) = n"
proof (induction n rule: decimal.induct)
  case (1 n)
  show ?case
  proof (cases "n < 10")
    case True
    then show ?thesis
      by (simp add: decimal_small decimal_value_def digit_value_digit_char)
  next
    case False
    with 1 have "decimal_value (decimal (n div 10)) = n div 10" by simp
    with False show ?thesis
      by (simp add: decimal_big decimal_value_snoc digit_value_digit_char)
  qed
qed

lemma length_decimal_gt: "10 ^ k \<le> n \<Longrightarrow> k < length (decimal n)"
proof (induction k arbitrary: n)
  case 0
  then show ?case using decimal_nonempty [of n] by (cases "decimal n") auto
next
  case (Suc k)
  from Suc.prems have "10 * 10 ^ k \<le> n" by simp
  moreover have "(10::nat) \<le> 10 * 10 ^ k" by simp
  ultimately have big: "\<not> n < 10" by linarith
  have "10 ^ k \<le> n div 10" using Suc.prems by (simp add: less_eq_div_iff_mult_less_eq mult.commute)
  with Suc.IH have "k < length (decimal (n div 10))" by simp
  with big show ?case by (simp add: decimal_big)
qed

lemma rev_upt_Suc: "rev [0..<Suc k] = map Suc (rev [0..<k]) @ [0]"
proof -
  have "[0..<Suc k] = 0 # map Suc [0..<k]"
    by (simp add: upt_conv_Cons map_Suc_upt del: upt_Suc)
  then show ?thesis by (simp add: rev_map del: upt_Suc)
qed

text \<open>
  Padding the numeral of a number below \<open>10 ^ k\<close> with zeros to the width \<open>k\<close> gives
  its \<open>k\<close> digits, from the digit of \<open>10 ^ (k - 1)\<close> down to the units.
\<close>

lemma pad_decimal:
  "0 < k \<Longrightarrow> n < 10 ^ k \<Longrightarrow>
   replicate (k - length (decimal n)) (CHR ''0'') @ decimal n =
   map (\<lambda>j. digit_char (n div 10 ^ j mod 10)) (rev [0..<k])"
proof (induction k arbitrary: n)
  case 0
  then show ?case by simp
next
  case (Suc k)
  let ?m = "n div 10"
  show ?case
  proof (cases "k = 0")
    case True
    with Suc.prems have "n < 10" by simp
    with True show ?thesis by (simp add: decimal_small)
  next
    case False
    then have k: "0 < k" by simp
    have m: "?m < 10 ^ k" using Suc.prems by (simp add: less_mult_imp_div_less mult.commute)
    have IH: "replicate (k - length (decimal ?m)) (CHR ''0'') @ decimal ?m =
      map (\<lambda>j. digit_char (?m div 10 ^ j mod 10)) (rev [0..<k])"
      using Suc.IH [OF k m] .
    have shift: "map (\<lambda>j. digit_char (n div 10 ^ j mod 10)) (rev [0..<Suc k]) =
      map (\<lambda>j. digit_char (?m div 10 ^ j mod 10)) (rev [0..<k]) @ [digit_char (n mod 10)]"
      by (simp only: rev_upt_Suc) (simp add: div_mult2_eq o_def)
    have left: "replicate (Suc k - length (decimal n)) (CHR ''0'') @ decimal n =
      (replicate (k - length (decimal ?m)) (CHR ''0'') @ decimal ?m) @ [digit_char (n mod 10)]"
    proof (cases "n < 10")
      case True
      then have "?m = 0" by simp
      moreover from k have "replicate (k - Suc 0) (CHR ''0'') @ [CHR ''0''] = replicate k (CHR ''0'')"
        by (cases k) (simp_all add: replicate_append_same)
      ultimately show ?thesis using True
        by (simp add: decimal_small digit_char_0)
    next
      case False
      then show ?thesis by (simp add: decimal_big)
    qed
    show ?thesis by (simp only: left IH shift)
  qed
qed

lemma length_decimal_le: "0 < k \<Longrightarrow> n < 10 ^ k \<Longrightarrow> length (decimal n) \<le> k"
proof (induction k arbitrary: n)
  case 0
  then show ?case by simp
next
  case (Suc k)
  show ?case
  proof (cases "n < 10")
    case True
    then show ?thesis by (simp add: decimal_small)
  next
    case False
    with Suc.prems have k: "0 < k" by (cases k) auto
    have "n div 10 < 10 ^ k" using Suc.prems by (simp add: less_mult_imp_div_less mult.commute)
    with Suc.IH k have "length (decimal (n div 10)) \<le> k" by simp
    with False show ?thesis by (simp add: decimal_big)
  qed
qed

lemma zero_fill_6: "0 \<le> i \<Longrightarrow> i < 1000000 \<Longrightarrow> zero_fill 6 i = spec_zero_pad6 (nat i)"
proof -
  assume i: "0 \<le> i" "i < 1000000"
  then have "nat i < 10 ^ 6" by simp
  then have "replicate (6 - length (decimal (nat i))) (CHR ''0'') @ decimal (nat i) =
    map (\<lambda>j. digit_char (nat i div 10 ^ j mod 10)) (rev [0..<6])"
    using pad_decimal [of 6 "nat i"] by simp
  moreover have "rev [0..<6] = [5, 4, 3, 2, 1, 0::nat]" by (simp add: upt_rec)
  ultimately show ?thesis using i
    by (simp add: zero_fill_def spec_zero_pad6_def)
qed

lemma zero_fill_0: "0 \<le> i \<Longrightarrow> zero_fill 0 i = decimal (nat i)"
  by (simp add: zero_fill_def)

lemma zero_fill_wide: "1000000 \<le> i \<Longrightarrow> zero_fill 6 i = decimal (nat i)"
proof -
  assume i: "1000000 \<le> i"
  then have "10 ^ 6 \<le> nat i" by simp
  then have "6 < length (decimal (nat i))" by (rule length_decimal_gt)
  with i show ?thesis by (simp add: zero_fill_def)
qed

text \<open>
  The limit of the conversion in terms of the number: an integer has at most
  \<open>int_max_str_digits\<close> digits when its absolute value is below
  \<open>10 ^ int_max_str_digits\<close>, and more otherwise.
\<close>

lemma int_max_str_digits_pos: "0 < int_max_str_digits"
  by (simp add: int_max_str_digits_def)

lemma nat_abs_less_power: "nat \<bar>i\<bar> < 10 ^ k \<longleftrightarrow> \<bar>i\<bar> < 10 ^ k"
proof -
  have "nat \<bar>i\<bar> < 10 ^ k \<longleftrightarrow> int (nat \<bar>i\<bar>) < int (10 ^ k)" by (simp only: of_nat_less_iff)
  also have "int (nat \<bar>i\<bar>) = \<bar>i\<bar>" by simp
  also have "int (10 ^ k) = 10 ^ k" by simp
  finally show ?thesis .
qed

lemma format_d_Inr: "\<bar>i\<bar> < 10 ^ int_max_str_digits \<Longrightarrow> format_d w i = Inr (zero_fill w i)"
proof -
  assume "\<bar>i\<bar> < 10 ^ int_max_str_digits"
  then have "nat \<bar>i\<bar> < 10 ^ int_max_str_digits" by (simp only: nat_abs_less_power)
  with int_max_str_digits_pos have "length (decimal (nat \<bar>i\<bar>)) \<le> int_max_str_digits"
    by (rule length_decimal_le)
  then show ?thesis by (simp add: format_d_def)
qed

lemma format_d_Inl: "10 ^ int_max_str_digits \<le> \<bar>i\<bar> \<Longrightarrow> format_d w i = Inl ValueError"
proof -
  assume "10 ^ int_max_str_digits \<le> \<bar>i\<bar>"
  then have "\<not> nat \<bar>i\<bar> < 10 ^ int_max_str_digits" by (simp only: nat_abs_less_power)
  then have "10 ^ int_max_str_digits \<le> nat \<bar>i\<bar>" by simp
  then have "int_max_str_digits < length (decimal (nat \<bar>i\<bar>))" by (rule length_decimal_gt)
  then show ?thesis by (simp add: format_d_def)
qed

lemma format_d_cases:
  "(\<bar>i\<bar> < 10 ^ int_max_str_digits \<and> format_d w i = Inr (zero_fill w i)) \<or>
   (10 ^ int_max_str_digits \<le> \<bar>i\<bar> \<and> format_d w i = Inl ValueError)"
proof (cases "\<bar>i\<bar> < 10 ^ int_max_str_digits")
  case True
  then show ?thesis by (simp add: format_d_Inr)
next
  case False
  then have "10 ^ int_max_str_digits \<le> \<bar>i\<bar>" by simp
  then show ?thesis by (simp add: format_d_Inl)
qed

lemma below_limit:
  fixes i :: int
  assumes "k \<le> int_max_str_digits" and "\<bar>i\<bar> < 10 ^ k"
  shows "\<bar>i\<bar> < 10 ^ int_max_str_digits"
proof -
  from assms(1) have "(10::int) ^ k \<le> 10 ^ int_max_str_digits"
    by (intro power_increasing) simp_all
  with assms(2) show ?thesis by linarith
qed

lemma million_within_limit:
  fixes i :: int
  assumes "\<bar>i\<bar> < 1000000"
  shows "\<bar>i\<bar> < 10 ^ int_max_str_digits"
proof (rule below_limit [of 6])
  show "6 \<le> int_max_str_digits" by (simp add: int_max_str_digits_def)
  from assms show "\<bar>i\<bar> < 10 ^ 6" by simp
qed

lemma million_below_limit: "(1000000::int) < 10 ^ int_max_str_digits"
proof -
  have "(1000000::int) = 10 ^ 6" by simp
  moreover have "(10::int) ^ 6 < 10 ^ int_max_str_digits"
    by (rule power_strict_increasing) (simp_all add: int_max_str_digits_def)
  ultimately show ?thesis by simp
qed

lemma replicate_numeral: "replicate (numeral k) x = x # replicate (pred_numeral k) x"
  by (simp add: numeral_eq_Suc)

lemmas fill_eval = zero_fill_def decimal.simps digit_char_def replicate_numeral
lemmas format_eval = format_d_def int_max_str_digits_def fill_eval


section \<open>The heap under allocation\<close>

text \<open>
  New objects go to the end of the heap, so a read of an attribute gives the same
  answer before and after an allocation, as long as no new object could answer it.
\<close>

lemmas py_defs = return_py_def lift_py_def bind_py_def new_object_def getattr_def
  setattr_def setitem_def iterate_def

lemma deref_old: "a < length h \<Longrightarrow> deref (h @ ext) a = deref h a"
  by (simp add: deref_def nth_append)

lemma deref_new:
  "\<not> a < length h \<Longrightarrow> deref h a = None \<and> deref (h @ ext) a = deref ext (a - length h)"
  by (auto simp: deref_def nth_append)

lemma deref_lacks: "list_all (lacks k) ext \<Longrightarrow> deref ext a = Some ob \<Longrightarrow> lacks k ob"
  by (auto simp: deref_def list_all_length split: if_splits)

lemma deref_append_length: "deref (h @ ob # ext) (length h) = Some ob"
  by (simp add: deref_def)

lemma dict_lookup_append:
  assumes "list_all (lacks k) ext"
  shows "(case deref (h @ ext) d of
            Some (PyDict kvs) \<Rightarrow>
              (case map_of kvs k of Some x \<Rightarrow> Inr x | None \<Rightarrow> Inl (AttributeError k))
          | _ \<Rightarrow> Inl (AttributeError k)) =
         (case deref h d of
            Some (PyDict kvs) \<Rightarrow>
              (case map_of kvs k of Some x \<Rightarrow> Inr x | None \<Rightarrow> Inl (AttributeError k))
          | _ \<Rightarrow> Inl (AttributeError k))"
proof (cases "d < length h")
  case True
  then show ?thesis by (simp add: deref_old)
next
  case False
  note new = deref_new [OF False, of ext]
  show ?thesis
  proof (cases "deref ext (d - length h)")
    case None
    with new show ?thesis by simp
  next
    case (Some ob)
    with assms have "lacks k ob" by (rule deref_lacks)
    with Some new show ?thesis by (cases ob) simp_all
  qed
qed

lemma attr_lookup_append:
  assumes "list_all (lacks k) ext"
  shows "attr_lookup (h @ ext) v k = attr_lookup h v k"
proof (cases v)
  case (PRef a)
  show ?thesis
  proof (cases "a < length h")
    case True
    then have same: "deref (h @ ext) a = deref h a" by (rule deref_old)
    show ?thesis
    proof (cases "deref h a")
      case None
      with same PRef show ?thesis by (simp add: attr_lookup_def)
    next
      case (Some ob)
      with same PRef dict_lookup_append [OF assms, of h] show ?thesis
        by (cases ob) (simp_all add: attr_lookup_def)
    qed
  next
    case False
    note new = deref_new [OF False, of ext]
    show ?thesis
    proof (cases "deref ext (a - length h)")
      case None
      with new PRef show ?thesis by (simp add: attr_lookup_def)
    next
      case (Some ob)
      with assms have "lacks k ob" by (rule deref_lacks)
      with Some new PRef show ?thesis by (cases ob) (simp_all add: attr_lookup_def)
    qed
  qed
qed (simp_all add: attr_lookup_def)

lemma attr_lookup_error: "attr_lookup h v k = Inl e \<Longrightarrow> e = AttributeError k"
  by (auto simp: attr_lookup_def split: pyval.splits option.splits pyobj.splits)

lemma list_items_append: "list_items h v = Inr xs \<Longrightarrow> list_items (h @ ext) v = Inr xs"
  by (auto simp: list_items_def deref_def nth_append split: pyval.splits if_splits pyobj.splits)

lemma list_items_new:
  assumes "list_items (h @ ext) v = Inr xs"
  shows "list_items h v = Inr xs \<or> PyList xs \<in> set ext"
proof -
  from assms obtain a where v: "v = PRef a" and d: "deref (h @ ext) a = Some (PyList xs)"
    by (auto simp: list_items_def split: pyval.splits option.splits pyobj.splits)
  show ?thesis
  proof (cases "a < length h")
    case True
    with v d show ?thesis by (simp add: deref_old list_items_def)
  next
    case False
    with d have "deref ext (a - length h) = Some (PyList xs)" using deref_new [OF False, of ext] by simp
    then have "a - length h < length ext" "ext ! (a - length h) = PyList xs"
      by (auto simp: deref_def split: if_splits)
    then have "PyList xs \<in> set ext" using nth_mem [of "a - length h" ext] by simp
    then show ?thesis by simp
  qed
qed

lemma str_add_Inr: "str_add D v = Inr y \<Longrightarrow> \<exists>s. v = PStr s \<and> y = PStr (D @ s)"
  by (cases v) auto

lemma str_add_error: "str_add D v = Inl e \<Longrightarrow> e = TypeError"
  by (cases v) auto

lemma list_items_error: "list_items h v = Inl e \<Longrightarrow> e = TypeError"
  by (auto simp: list_items_def split: pyval.splits option.splits pyobj.splits)

lemma list_comp_str_add_error: "list_comp (str_add D) vs = Inl e \<Longrightarrow> e = TypeError"
  by (induction vs) (auto split: sum.splits dest: str_add_error)

lemma list_comp_str_add:
  "list_comp (str_add D) (map PStr ps) = Inr (map (\<lambda>s. PStr (D @ s)) ps)"
  by (induction ps) simp_all

lemma list_comp_str_add_Inr:
  "list_comp (str_add D) vs = Inr ys \<Longrightarrow>
   \<exists>ps. vs = map PStr ps \<and> ys = map (\<lambda>s. PStr (D @ s)) ps"
proof (induction vs arbitrary: ys)
  case Nil
  then show ?case by simp
next
  case (Cons v vs)
  from Cons.prems obtain y zs where y: "str_add D v = Inr y"
    and zs: "list_comp (str_add D) vs = Inr zs" and ys: "ys = y # zs"
    by (auto split: sum.splits)
  from y obtain s where s: "v = PStr s" "y = PStr (D @ s)" using str_add_Inr by blast
  from Cons.IH [OF zs] obtain ps where "vs = map PStr ps" "zs = map (\<lambda>s. PStr (D @ s)) ps"
    by blast
  with s ys have "v # vs = map PStr (s # ps) \<and> ys = map (\<lambda>s. PStr (D @ s)) (s # ps)" by simp
  then show ?case by (rule exI)
qed

text \<open>
  A run of \<open>biocaddie_json\<close> in which every read succeeds: the result is the address
  of the first of four new objects, the document, the identifier dictionary, the list
  that holds it and the list of prefixed pht entries.
\<close>

lemma biocaddie_json_run:
  assumes "attr_lookup h raw ''GaPExchange'' = Inr g"
    and "attr_lookup h g ''Studies'' = Inr ss"
    and "attr_lookup h ss ''Study'' = Inr study"
    and "attr_lookup h study ''accession'' = Inr (PStr a)"
    and "attr_lookup h study ''Configuration'' = Inr c"
    and "attr_lookup h c ''StudyNameEntrez'' = Inr t"
    and "attr_lookup h c ''StudyNameReportPage'' = Inr d"
    and "attr_lookup h c ''StudyTypes'' = Inr ts"
    and "attr_lookup h ts ''StudyType'' = Inr st"
    and "list_items h pht = Inr (map PStr ps)"
  shows "biocaddie_json D raw pht h =
    (Inr (PRef (length h)),
     h @ [JsonObj [(''@type'', PStr ''Study''),
                   (''identifierInfo'', PRef (Suc (Suc (length h)))),
                   (''title'', t), (''description'', d), (''study_types'', st),
                   (''resultsIn'', PRef (Suc (Suc (Suc (length h)))))],
          PyDict [(''identifier'', PStr (D @ a)), (''identifierScheme'', PStr ''dbGaP'')],
          PyList [PRef (Suc (length h))],
          PyList (map (\<lambda>s. PStr (D @ s)) ps)])"
  using assms
  by (simp add: biocaddie_json_def py_defs attr_lookup_append list_items_append
      deref_append_length list_comp_str_add)

text \<open>Whatever happens, the objects that were there stay as they were.\<close>

lemma biocaddie_json_frame: "\<exists>ext. snd (biocaddie_json D raw pht h) = h @ ext"
  by (simp add: biocaddie_json_def py_defs attr_lookup_append deref_append_length
      split: sum.splits)

text \<open>A run that returns a document has found every field, and a list of strings.\<close>

lemma biocaddie_json_Inr:
  assumes "biocaddie_json D raw pht h = (Inr r, h')"
  shows "\<exists>g ss study a c t d ts st ps.
    attr_lookup h raw ''GaPExchange'' = Inr g \<and>
    attr_lookup h g ''Studies'' = Inr ss \<and>
    attr_lookup h ss ''Study'' = Inr study \<and>
    attr_lookup h study ''accession'' = Inr (PStr a) \<and>
    attr_lookup h study ''Configuration'' = Inr c \<and>
    attr_lookup h c ''StudyNameEntrez'' = Inr t \<and>
    attr_lookup h c ''StudyNameReportPage'' = Inr d \<and>
    attr_lookup h c ''StudyTypes'' = Inr ts \<and>
    attr_lookup h ts ''StudyType'' = Inr st \<and>
    list_items h pht = Inr (map PStr ps)"
  using assms
  by (auto simp: biocaddie_json_def py_defs attr_lookup_append deref_append_length
      split: sum.splits dest!: str_add_Inr list_comp_str_add_Inr list_items_new)

lemmas path_defs = accession_path_def title_path_def description_path_def study_types_path_def
lemmas heap_eval = attr_lookup_def deref_def list_items_def

lemma biocaddie_json_paths:
  assumes "field_at h raw accession_path = Inr (PStr a)"
    and "field_at h raw title_path = Inr t"
    and "field_at h raw description_path = Inr d"
    and "field_at h raw study_types_path = Inr st"
    and "list_items h pht = Inr (map PStr ps)"
  shows "biocaddie_json D raw pht h =
    (Inr (PRef (length h)),
     h @ [JsonObj [(''@type'', PStr ''Study''),
                   (''identifierInfo'', PRef (Suc (Suc (length h)))),
                   (''title'', t), (''description'', d), (''study_types'', st),
                   (''resultsIn'', PRef (Suc (Suc (Suc (length h)))))],
          PyDict [(''identifier'', PStr (D @ a)), (''identifierScheme'', PStr ''dbGaP'')],
          PyList [PRef (Suc (length h))],
          PyList (map (\<lambda>s. PStr (D @ s)) ps)])"
proof -
  from assms(1) obtain g ss study where
    g: "attr_lookup h raw ''GaPExchange'' = Inr g" and
    ss: "attr_lookup h g ''Studies'' = Inr ss" and
    study: "attr_lookup h ss ''Study'' = Inr study" and
    a: "attr_lookup h study ''accession'' = Inr (PStr a)"
    by (auto simp: path_defs split: sum.splits)
  from assms(2) g ss study obtain c where
    c: "attr_lookup h study ''Configuration'' = Inr c" and
    t: "attr_lookup h c ''StudyNameEntrez'' = Inr t"
    by (auto simp: path_defs split: sum.splits)
  from assms(3) g ss study c have d: "attr_lookup h c ''StudyNameReportPage'' = Inr d"
    by (auto simp: path_defs split: sum.splits)
  from assms(4) g ss study c obtain ts where
    ts: "attr_lookup h c ''StudyTypes'' = Inr ts" and
    st: "attr_lookup h ts ''StudyType'' = Inr st"
    by (auto simp: path_defs split: sum.splits)
  from g ss study a c t d ts st assms(5) show ?thesis by (rule biocaddie_json_run)
qed

lemma biocaddie_json_Inr_paths:
  assumes "biocaddie_json D raw pht h = (Inr r, h')"
  shows "\<exists>a t d st ps.
    field_at h raw accession_path = Inr (PStr a) \<and>
    field_at h raw title_path = Inr t \<and>
    field_at h raw description_path = Inr d \<and>
    field_at h raw study_types_path = Inr st \<and>
    list_items h pht = Inr (map PStr ps)"
proof -
  from biocaddie_json_Inr [OF assms] obtain g ss study a c t d ts st ps where
    "attr_lookup h raw ''GaPExchange'' = Inr g"
    "attr_lookup h g ''Studies'' = Inr ss"
    "attr_lookup h ss ''Study'' = Inr study"
    "attr_lookup h study ''accession'' = Inr (PStr a)"
    "attr_lookup h study ''Configuration'' = Inr c"
    "attr_lookup h c ''StudyNameEntrez'' = Inr t"
    "attr_lookup h c ''StudyNameReportPage'' = Inr d"
    "attr_lookup h c ''StudyTypes'' = Inr ts"
    "attr_lookup h ts ''StudyType'' = Inr st"
    "list_items h pht = Inr (map PStr ps)"
    by blast
  then have "field_at h raw accession_path = Inr (PStr a) \<and>
    field_at h raw title_path = Inr t \<and>
    field_at h raw description_path = Inr d \<and>
    field_at h raw study_types_path = Inr st \<and>
    list_items h pht = Inr (map PStr ps)"
    by (simp add: path_defs)
  then show ?thesis by blast
qed


section \<open>Properties of StudyIdentifier\<close>

lemma deref_append_Suc_length: "deref (h @ [ob, ob']) (Suc (length h)) = Some ob'"
  by (simp add: deref_def nth_append)

lemma instance_lookup:
  "attr_lookup (h @ [PyDict kvs, Instance (length h)]) (PRef (Suc (length h))) k =
     (case map_of kvs k of Some x \<Rightarrow> Inr x | None \<Rightarrow> Inl (AttributeError k))"
  by (simp add: attr_lookup_def deref_append_Suc_length deref_append_length)

text \<open>
  A run of the constructor in which the three conversions succeed: two objects are
  allocated, the attribute dictionary with the three strings and the instance.
\<close>

lemma StudyIdentifier_run:
  assumes "percent_d 6 id' = Inr a" and "percent_d 0 v = Inr b" and "percent_d 0 p = Inr c"
  shows "StudyIdentifier id' v p h =
     (Inr (PRef (Suc (length h))),
      h @ [PyDict [(''studyid'', PStr (''phs'' @ a)),
                   (''versionedid'', PStr (''phs'' @ a @ ''.v'' @ b)),
                   (''fullid'', PStr (''phs'' @ a @ ''.v'' @ b @ ''.p'' @ c))],
           Instance (length h)])"
  using assms
  by (simp add: StudyIdentifier_def py_defs new_instance_def instance_lookup
      deref_append_Suc_length deref_append_length)

text \<open>The outcome of the constructor is decided by the three conversions, in this order.\<close>

lemma StudyIdentifier_outcome:
  "fst (StudyIdentifier id' v p h) =
     (case percent_d 6 id' of
        Inl e \<Rightarrow> Inl e
      | Inr a \<Rightarrow>
          (case percent_d 0 v of
             Inl e \<Rightarrow> Inl e
           | Inr b \<Rightarrow>
               (case percent_d 0 p of
                  Inl e \<Rightarrow> Inl e
                | Inr c \<Rightarrow> Inr (PRef (Suc (length h))))))"
  by (simp add: StudyIdentifier_def py_defs new_instance_def instance_lookup
      deref_append_Suc_length deref_append_length split: sum.splits)

lemma StudyIdentifier_Inr:
  assumes "StudyIdentifier id' v p h = (Inr self, h')"
  shows "\<exists>a b c. percent_d 6 id' = Inr a \<and> percent_d 0 v = Inr b \<and> percent_d 0 p = Inr c"
proof -
  from assms have "fst (StudyIdentifier id' v p h) = Inr self" by simp
  then show ?thesis by (simp add: StudyIdentifier_outcome split: sum.splits)
qed

text \<open>Integers within the limit of the conversion, and integers beyond it.\<close>

lemma StudyIdentifier_ints:
  assumes "\<bar>i\<bar> < 10 ^ int_max_str_digits" and "\<bar>v\<bar> < 10 ^ int_max_str_digits"
    and "\<bar>p\<bar> < 10 ^ int_max_str_digits"
  shows "StudyIdentifier (PInt i) (PInt v) (PInt p) h =
     (Inr (PRef (Suc (length h))),
      h @ [PyDict [(''studyid'', PStr (''phs'' @ zero_fill 6 i)),
                   (''versionedid'', PStr (''phs'' @ zero_fill 6 i @ ''.v'' @ zero_fill 0 v)),
                   (''fullid'',
                      PStr (''phs'' @ zero_fill 6 i @ ''.v'' @ zero_fill 0 v @ ''.p'' @ zero_fill 0 p))],
           Instance (length h)])"
  by (rule StudyIdentifier_run) (simp_all add: format_d_Inr assms)

lemma StudyIdentifier_ValueError:
  assumes "10 ^ int_max_str_digits \<le> \<bar>i\<bar> \<or> 10 ^ int_max_str_digits \<le> \<bar>v\<bar> \<or>
    10 ^ int_max_str_digits \<le> \<bar>p\<bar>"
  shows "fst (StudyIdentifier (PInt i) (PInt v) (PInt p) h) = Inl ValueError"
  using assms format_d_cases [of i 6] format_d_cases [of v 0] format_d_cases [of p 0]
  by (auto simp: StudyIdentifier_outcome)

lemma StudyIdentifier_example:
  "StudyIdentifier (PInt 123) (PInt 4) (PInt 5) [] =
     (Inr (PRef 1),
      [PyDict [(''studyid'', PStr ''phs000123''), (''versionedid'', PStr ''phs000123.v4''),
               (''fullid'', PStr ''phs000123.v4.p5'')], Instance 0])"
proof -
  have "percent_d 6 (PInt 123) = Inr ''000123''" "percent_d 0 (PInt 4) = Inr ''4''"
    "percent_d 0 (PInt 5) = Inr ''5''"
    by (simp_all add: format_eval)
  from StudyIdentifier_run [OF this, of "[]"] show ?thesis by simp
qed

lemma power_limit_nonneg: "\<bar>(10::int) ^ int_max_str_digits\<bar> = 10 ^ int_max_str_digits"
  by simp

text \<open>
  C1 (amended). For \<open>0 \<le> id < 1000000\<close> and for \<open>v\<close> and \<open>p\<close> that are not negative
  and have at most 4300 digits, the constructor returns an object whose \<open>studyid\<close> is
  \<open>phs\<close> followed by the six digits of \<open>id\<close>, whose \<open>versionedid\<close> is \<open>studyid\<close>,
  \<open>.v\<close> and the decimal numeral of \<open>v\<close>, and whose \<open>fullid\<close> is \<open>versionedid\<close>,
  \<open>.p\<close> and the decimal numeral of \<open>p\<close>. Without the bound on the digits the
  constructor can raise \<open>ValueError\<close>.
\<close>

theorem StudyIdentifier_canonical:
  assumes "0 \<le> i" and "i < 1000000"
    and "0 \<le> v" and "v < 10 ^ int_max_str_digits"
    and "0 \<le> p" and "p < 10 ^ int_max_str_digits"
  shows "\<exists>self h'. StudyIdentifier (PInt i) (PInt v) (PInt p) h = (Inr self, h') \<and>
    attr_lookup h' self ''studyid'' = Inr (PStr (''phs'' @ spec_zero_pad6 (nat i))) \<and>
    attr_lookup h' self ''versionedid'' =
      Inr (PStr ((''phs'' @ spec_zero_pad6 (nat i)) @ ''.v'' @ decimal (nat v))) \<and>
    attr_lookup h' self ''fullid'' =
      Inr (PStr (((''phs'' @ spec_zero_pad6 (nat i)) @ ''.v'' @ decimal (nat v)) @ ''.p'' @ decimal (nat p)))"
proof -
  from assms have "\<bar>i\<bar> < 1000000" by simp
  then have i: "\<bar>i\<bar> < 10 ^ int_max_str_digits" by (rule million_within_limit)
  from assms have v: "\<bar>v\<bar> < 10 ^ int_max_str_digits" and p: "\<bar>p\<bar> < 10 ^ int_max_str_digits"
    by simp_all
  from assms show ?thesis
    by (simp add: StudyIdentifier_ints [OF i v p] instance_lookup zero_fill_6 zero_fill_0)
qed

theorem StudyIdentifier_canonical_witness:
  "(0::int) \<le> 123 \<and> (123::int) < 1000000 \<and>
   (0::int) \<le> 4 \<and> (4::int) < 10 ^ int_max_str_digits \<and>
   (0::int) \<le> 5 \<and> (5::int) < 10 ^ int_max_str_digits \<and>
   (\<exists>self h'. StudyIdentifier (PInt 123) (PInt 4) (PInt 5) [] = (Inr self, h') \<and>
      attr_lookup h' self ''studyid'' = Inr (PStr ''phs000123'') \<and>
      attr_lookup h' self ''versionedid'' = Inr (PStr ''phs000123.v4'') \<and>
      attr_lookup h' self ''fullid'' = Inr (PStr ''phs000123.v4.p5''))"
proof -
  have v: "(4::int) < 10 ^ int_max_str_digits" and p: "(5::int) < 10 ^ int_max_str_digits"
    using million_within_limit [of 4] million_within_limit [of 5] by simp_all
  from StudyIdentifier_canonical [of 123 4 5 "[]"] v p show ?thesis
    by (simp add: spec_zero_pad6_def decimal.simps digit_char_def)
qed

theorem StudyIdentifier_canonical_counterexample:
  "(0::int) \<le> 123 \<and> (123::int) < 1000000 \<and> (0::int) \<le> 10 ^ 4300 \<and> (0::int) \<le> 5 \<and>
   fst (StudyIdentifier (PInt 123) (PInt (10 ^ 4300)) (PInt 5) []) = Inl ValueError"
proof -
  have "10 ^ int_max_str_digits \<le> \<bar>(10::int) ^ int_max_str_digits\<bar>"
    by (simp only: power_limit_nonneg)
  then have "fst (StudyIdentifier (PInt 123) (PInt (10 ^ int_max_str_digits)) (PInt 5) []) =
    Inl ValueError"
    by (intro StudyIdentifier_ValueError disjI2 disjI1)
  then have raised: "fst (StudyIdentifier (PInt 123) (PInt (10 ^ 4300)) (PInt 5) []) = Inl ValueError"
    unfolding int_max_str_digits_def .
  have version: "(0::int) \<le> 10 ^ 4300" by (rule zero_le_power) simp
  have others: "(0::int) \<le> 123" "(123::int) < 1000000" "(0::int) \<le> 5" by simp_all
  from others version raised show ?thesis by (intro conjI)
qed

text \<open>
  C7. The mapping that \<open>identifiers\<close> returns for an object that the constructor has
  returned holds the three entries \<open>studyid\<close>, \<open>versionedid\<close> and \<open>fullid\<close>, each
  with the string the object has under that name, and nothing else. The constructor
  returns such an object for all integers within the limit of the conversion.
\<close>

theorem identifiers_three_entries:
  "(\<forall>self h'. StudyIdentifier (PInt i) (PInt v) (PInt p) h = (Inr self, h') \<longrightarrow>
      (\<exists>d s1 s2 s3.
         identifiers self h' = (Inr (PRef d), h') \<and>
         attr_lookup h' self ''studyid'' = Inr (PStr s1) \<and>
         attr_lookup h' self ''versionedid'' = Inr (PStr s2) \<and>
         attr_lookup h' self ''fullid'' = Inr (PStr s3) \<and>
         deref h' d =
           Some (PyDict [(''studyid'', PStr s1), (''versionedid'', PStr s2), (''fullid'', PStr s3)]))) \<and>
   (\<bar>i\<bar> < 10 ^ int_max_str_digits \<and> \<bar>v\<bar> < 10 ^ int_max_str_digits \<and>
    \<bar>p\<bar> < 10 ^ int_max_str_digits \<longrightarrow>
      (\<exists>self h'. StudyIdentifier (PInt i) (PInt v) (PInt p) h = (Inr self, h')))"
proof (intro conjI allI impI)
  fix self h'
  assume run: "StudyIdentifier (PInt i) (PInt v) (PInt p) h = (Inr self, h')"
  from StudyIdentifier_Inr [OF run] obtain a b c where
    abc: "percent_d 6 (PInt i) = Inr a" "percent_d 0 (PInt v) = Inr b" "percent_d 0 (PInt p) = Inr c"
    by blast
  from StudyIdentifier_run [OF abc, of h] run
  show "\<exists>d s1 s2 s3.
         identifiers self h' = (Inr (PRef d), h') \<and>
         attr_lookup h' self ''studyid'' = Inr (PStr s1) \<and>
         attr_lookup h' self ''versionedid'' = Inr (PStr s2) \<and>
         attr_lookup h' self ''fullid'' = Inr (PStr s3) \<and>
         deref h' d =
           Some (PyDict [(''studyid'', PStr s1), (''versionedid'', PStr s2), (''fullid'', PStr s3)])"
    by (auto simp: instance_lookup identifiers_def deref_append_Suc_length deref_append_length)
next
  assume "\<bar>i\<bar> < 10 ^ int_max_str_digits \<and> \<bar>v\<bar> < 10 ^ int_max_str_digits \<and>
    \<bar>p\<bar> < 10 ^ int_max_str_digits"
  then show "\<exists>self h'. StudyIdentifier (PInt i) (PInt v) (PInt p) h = (Inr self, h')"
    by (simp add: StudyIdentifier_ints)
qed

theorem identifiers_three_entries_witness:
  "\<exists>self h' d.
     StudyIdentifier (PInt 123) (PInt 4) (PInt 5) [] = (Inr self, h') \<and>
     identifiers self h' = (Inr (PRef d), h') \<and>
     deref h' d =
       Some (PyDict [(''studyid'', PStr ''phs000123''), (''versionedid'', PStr ''phs000123.v4''),
                     (''fullid'', PStr ''phs000123.v4.p5'')])"
  using identifiers_three_entries [of 123 4 5 "[]"]
  by (auto simp: StudyIdentifier_example attr_lookup_def deref_def)

lemma identifiers_heap: "snd (identifiers self h) = h"
  by (simp add: identifiers_def split: pyval.splits option.splits pyobj.splits)

text \<open>
  C8 (amended). The constructor fixes the three strings, and reading \<open>identifiers\<close>
  changes no object. What \<open>identifiers\<close> returns is the object's own attribute
  dictionary: its three entries are the object's three strings, and a value stored
  under one of the three names through it, or assigned to the attribute, is from then
  on the object's attribute of that name. It is not a read-only view.
\<close>

theorem identifiers_is_the_attribute_dictionary:
  "snd (identifiers obj g) = g \<and>
   (\<forall>self h'. StudyIdentifier (PInt i) (PInt v) (PInt p) h = (Inr self, h') \<longrightarrow>
      (\<exists>d s1 s2 s3.
         identifiers self h' = (Inr (PRef d), h') \<and>
         attr_lookup h' self ''studyid'' = Inr (PStr s1) \<and>
         attr_lookup h' self ''versionedid'' = Inr (PStr s2) \<and>
         attr_lookup h' self ''fullid'' = Inr (PStr s3) \<and>
         deref h' d =
           Some (PyDict [(''studyid'', PStr s1), (''versionedid'', PStr s2), (''fullid'', PStr s3)]) \<and>
         (\<forall>k \<in> {''studyid'', ''versionedid'', ''fullid''}. \<forall>x.
            (\<exists>h''. setitem (PRef d) k x h' = (Inr (), h'') \<and> attr_lookup h'' self k = Inr x) \<and>
            (\<exists>h''. setattr self k x h' = (Inr (), h'') \<and> attr_lookup h'' self k = Inr x))))"
proof (intro conjI allI impI)
  show "snd (identifiers obj g) = g" by (rule identifiers_heap)
next
  fix self h'
  assume run: "StudyIdentifier (PInt i) (PInt v) (PInt p) h = (Inr self, h')"
  from StudyIdentifier_Inr [OF run] obtain a b c where
    abc: "percent_d 6 (PInt i) = Inr a" "percent_d 0 (PInt v) = Inr b" "percent_d 0 (PInt p) = Inr c"
    by blast
  let ?s1 = "''phs'' @ a"
  let ?s2 = "''phs'' @ a @ ''.v'' @ b"
  let ?s3 = "''phs'' @ a @ ''.v'' @ b @ ''.p'' @ c"
  let ?kvs = "[(''studyid'', PStr ?s1), (''versionedid'', PStr ?s2), (''fullid'', PStr ?s3)]"
  from StudyIdentifier_run [OF abc, of h] run
  have self: "self = PRef (Suc (length h))" and
    h': "h' = h @ [PyDict ?kvs, Instance (length h)]"
    by simp_all
  have a: "identifiers self h' = (Inr (PRef (length h)), h')"
    by (simp add: self h' identifiers_def deref_def nth_append)
  have b: "deref h' (length h) = Some (PyDict ?kvs)"
    by (simp add: h' deref_def)
  have c: "attr_lookup h' self ''studyid'' = Inr (PStr ?s1)"
    "attr_lookup h' self ''versionedid'' = Inr (PStr ?s2)"
    "attr_lookup h' self ''fullid'' = Inr (PStr ?s3)"
    by (simp_all add: self h' instance_lookup)
  have d: "\<forall>k \<in> {''studyid'', ''versionedid'', ''fullid''}. \<forall>x.
    (\<exists>h''. setitem (PRef (length h)) k x h' = (Inr (), h'') \<and> attr_lookup h'' self k = Inr x) \<and>
    (\<exists>h''. setattr self k x h' = (Inr (), h'') \<and> attr_lookup h'' self k = Inr x)"
    by (simp add: self h' setitem_def setattr_def deref_append_length deref_append_Suc_length
        instance_lookup)
  from a b c d
  show "\<exists>d s1 s2 s3.
         identifiers self h' = (Inr (PRef d), h') \<and>
         attr_lookup h' self ''studyid'' = Inr (PStr s1) \<and>
         attr_lookup h' self ''versionedid'' = Inr (PStr s2) \<and>
         attr_lookup h' self ''fullid'' = Inr (PStr s3) \<and>
         deref h' d =
           Some (PyDict [(''studyid'', PStr s1), (''versionedid'', PStr s2), (''fullid'', PStr s3)]) \<and>
         (\<forall>k \<in> {''studyid'', ''versionedid'', ''fullid''}. \<forall>x.
            (\<exists>h''. setitem (PRef d) k x h' = (Inr (), h'') \<and> attr_lookup h'' self k = Inr x) \<and>
            (\<exists>h''. setattr self k x h' = (Inr (), h'') \<and> attr_lookup h'' self k = Inr x))"
    by blast
qed

theorem identifiers_is_the_attribute_dictionary_witness:
  "\<exists>self h' d h''.
     StudyIdentifier (PInt 123) (PInt 4) (PInt 5) [] = (Inr self, h') \<and>
     identifiers self h' = (Inr (PRef d), h') \<and>
     attr_lookup h' self ''fullid'' = Inr (PStr ''phs000123.v4.p5'') \<and>
     setitem (PRef d) ''fullid'' (PStr ''other'') h' = (Inr (), h'') \<and>
     attr_lookup h'' self ''fullid'' = Inr (PStr ''other'')"
proof -
  let ?h' = "[PyDict [(''studyid'', PStr ''phs000123''), (''versionedid'', PStr ''phs000123.v4''),
                      (''fullid'', PStr ''phs000123.v4.p5'')], Instance 0]"
  have run: "StudyIdentifier (PInt 123) (PInt 4) (PInt 5) [] = (Inr (PRef 1), ?h')"
    by (rule StudyIdentifier_example)
  from identifiers_is_the_attribute_dictionary [of "PRef 1" ?h' 123 4 5 "[]"] run
  obtain d where
    ids: "identifiers (PRef 1) ?h' = (Inr (PRef d), ?h')" and
    store: "\<forall>k \<in> {''studyid'', ''versionedid'', ''fullid''}. \<forall>x.
      (\<exists>h''. setitem (PRef d) k x ?h' = (Inr (), h'') \<and> attr_lookup h'' (PRef 1) k = Inr x) \<and>
      (\<exists>h''. setattr (PRef 1) k x ?h' = (Inr (), h'') \<and> attr_lookup h'' (PRef 1) k = Inr x)"
    by auto
  from store obtain h'' where
    "setitem (PRef d) ''fullid'' (PStr ''other'') ?h' = (Inr (), h'')"
    "attr_lookup h'' (PRef 1) ''fullid'' = Inr (PStr ''other'')"
    by blast
  moreover have "attr_lookup ?h' (PRef 1) ''fullid'' = Inr (PStr ''phs000123.v4.p5'')"
    by (simp add: heap_eval)
  ultimately show ?thesis using run ids by simp
qed

theorem identifiers_read_only_counterexample:
  "StudyIdentifier (PInt 123) (PInt 4) (PInt 5) [] =
     (Inr (PRef 1),
      [PyDict [(''studyid'', PStr ''phs000123''), (''versionedid'', PStr ''phs000123.v4''),
               (''fullid'', PStr ''phs000123.v4.p5'')], Instance 0]) \<and>
   identifiers (PRef 1)
      [PyDict [(''studyid'', PStr ''phs000123''), (''versionedid'', PStr ''phs000123.v4''),
               (''fullid'', PStr ''phs000123.v4.p5'')], Instance 0] =
     (Inr (PRef 0),
      [PyDict [(''studyid'', PStr ''phs000123''), (''versionedid'', PStr ''phs000123.v4''),
               (''fullid'', PStr ''phs000123.v4.p5'')], Instance 0]) \<and>
   setitem (PRef 0) ''studyid'' (PStr ''changed'')
      [PyDict [(''studyid'', PStr ''phs000123''), (''versionedid'', PStr ''phs000123.v4''),
               (''fullid'', PStr ''phs000123.v4.p5'')], Instance 0] =
     (Inr (),
      [PyDict [(''studyid'', PStr ''changed''), (''versionedid'', PStr ''phs000123.v4''),
               (''fullid'', PStr ''phs000123.v4.p5'')], Instance 0]) \<and>
   attr_lookup
      [PyDict [(''studyid'', PStr ''phs000123''), (''versionedid'', PStr ''phs000123.v4''),
               (''fullid'', PStr ''phs000123.v4.p5'')], Instance 0]
      (PRef 1) ''studyid'' = Inr (PStr ''phs000123'') \<and>
   attr_lookup
      [PyDict [(''studyid'', PStr ''changed''), (''versionedid'', PStr ''phs000123.v4''),
               (''fullid'', PStr ''phs000123.v4.p5'')], Instance 0]
      (PRef 1) ''studyid'' = Inr (PStr ''changed'') \<and>
   setattr (PRef 1) ''studyid'' (PStr ''changed'')
      [PyDict [(''studyid'', PStr ''phs000123''), (''versionedid'', PStr ''phs000123.v4''),
               (''fullid'', PStr ''phs000123.v4.p5'')], Instance 0] =
     (Inr (),
      [PyDict [(''studyid'', PStr ''changed''), (''versionedid'', PStr ''phs000123.v4''),
               (''fullid'', PStr ''phs000123.v4.p5'')], Instance 0])"
  by (simp add: StudyIdentifier_example identifiers_def setitem_def setattr_def heap_eval)

text \<open>
  C9 (amended). The constructor checks no range. For all integers of at most 4300
  digits, negative and large ones included, it returns an object whose strings are
  laid out from the numbers as they are. An integer of more than 4300 digits is not
  converted: the constructor then raises \<open>ValueError\<close> and returns no object.
\<close>

theorem StudyIdentifier_no_validation:
  "(\<bar>i\<bar> < 10 ^ int_max_str_digits \<and> \<bar>v\<bar> < 10 ^ int_max_str_digits \<and>
    \<bar>p\<bar> < 10 ^ int_max_str_digits \<longrightarrow>
      (\<exists>self h'. StudyIdentifier (PInt i) (PInt v) (PInt p) h = (Inr self, h') \<and>
         attr_lookup h' self ''studyid'' = Inr (PStr (''phs'' @ zero_fill 6 i)) \<and>
         attr_lookup h' self ''versionedid'' =
           Inr (PStr (''phs'' @ zero_fill 6 i @ ''.v'' @ zero_fill 0 v)) \<and>
         attr_lookup h' self ''fullid'' =
           Inr (PStr (''phs'' @ zero_fill 6 i @ ''.v'' @ zero_fill 0 v @ ''.p'' @ zero_fill 0 p)))) \<and>
   (10 ^ int_max_str_digits \<le> \<bar>i\<bar> \<or> 10 ^ int_max_str_digits \<le> \<bar>v\<bar> \<or>
    10 ^ int_max_str_digits \<le> \<bar>p\<bar> \<longrightarrow>
      fst (StudyIdentifier (PInt i) (PInt v) (PInt p) h) = Inl ValueError)"
proof (intro conjI impI)
  assume "\<bar>i\<bar> < 10 ^ int_max_str_digits \<and> \<bar>v\<bar> < 10 ^ int_max_str_digits \<and>
    \<bar>p\<bar> < 10 ^ int_max_str_digits"
  then show "\<exists>self h'. StudyIdentifier (PInt i) (PInt v) (PInt p) h = (Inr self, h') \<and>
         attr_lookup h' self ''studyid'' = Inr (PStr (''phs'' @ zero_fill 6 i)) \<and>
         attr_lookup h' self ''versionedid'' =
           Inr (PStr (''phs'' @ zero_fill 6 i @ ''.v'' @ zero_fill 0 v)) \<and>
         attr_lookup h' self ''fullid'' =
           Inr (PStr (''phs'' @ zero_fill 6 i @ ''.v'' @ zero_fill 0 v @ ''.p'' @ zero_fill 0 p))"
    by (simp add: StudyIdentifier_ints instance_lookup)
next
  assume "10 ^ int_max_str_digits \<le> \<bar>i\<bar> \<or> 10 ^ int_max_str_digits \<le> \<bar>v\<bar> \<or>
    10 ^ int_max_str_digits \<le> \<bar>p\<bar>"
  then show "fst (StudyIdentifier (PInt i) (PInt v) (PInt p) h) = Inl ValueError"
    by (rule StudyIdentifier_ValueError)
qed

theorem StudyIdentifier_no_validation_witness:
  "\<bar>- 5 :: int\<bar> < 10 ^ int_max_str_digits \<and> \<bar>- 1 :: int\<bar> < 10 ^ int_max_str_digits \<and>
   \<bar>1234567 :: int\<bar> < 10 ^ int_max_str_digits \<and>
   (\<exists>self h'. StudyIdentifier (PInt (- 5)) (PInt (- 1)) (PInt 1234567) [] = (Inr self, h') \<and>
      attr_lookup h' self ''studyid'' = Inr (PStr ''phs-00005'') \<and>
      attr_lookup h' self ''versionedid'' = Inr (PStr ''phs-00005.v-1'') \<and>
      attr_lookup h' self ''fullid'' = Inr (PStr ''phs-00005.v-1.p1234567''))"
proof -
  have bounds: "\<bar>- 5 :: int\<bar> < 10 ^ int_max_str_digits" "\<bar>- 1 :: int\<bar> < 10 ^ int_max_str_digits"
    "\<bar>1234567 :: int\<bar> < 10 ^ int_max_str_digits"
    by (rule below_limit [of 7], simp add: int_max_str_digits_def, simp)+
  with StudyIdentifier_no_validation [of "- 5" "- 1" 1234567 "[]"]
  have "\<exists>self h'. StudyIdentifier (PInt (- 5)) (PInt (- 1)) (PInt 1234567) [] = (Inr self, h') \<and>
      attr_lookup h' self ''studyid'' = Inr (PStr (''phs'' @ zero_fill 6 (- 5))) \<and>
      attr_lookup h' self ''versionedid'' =
        Inr (PStr (''phs'' @ zero_fill 6 (- 5) @ ''.v'' @ zero_fill 0 (- 1))) \<and>
      attr_lookup h' self ''fullid'' =
        Inr (PStr (''phs'' @ zero_fill 6 (- 5) @ ''.v'' @ zero_fill 0 (- 1) @ ''.p'' @ zero_fill 0 1234567))"
    by blast
  moreover have "zero_fill 6 (- 5) = ''-00005''" "zero_fill 0 (- 1) = ''-1''"
    "zero_fill 0 1234567 = ''1234567''"
    by (simp_all add: fill_eval)
  ultimately show ?thesis using bounds by simp
qed

theorem StudyIdentifier_no_validation_counterexample:
  "fst (StudyIdentifier (PInt (10 ^ 4300)) (PInt 0) (PInt 0) []) = Inl ValueError"
proof -
  have "10 ^ int_max_str_digits \<le> \<bar>(10::int) ^ int_max_str_digits\<bar>"
    by (simp only: power_limit_nonneg)
  then have "fst (StudyIdentifier (PInt (10 ^ int_max_str_digits)) (PInt 0) (PInt 0) []) =
    Inl ValueError"
    by (intro StudyIdentifier_ValueError disjI1)
  then show ?thesis unfolding int_max_str_digits_def .
qed

text \<open>
  C10 (amended). For \<open>id \<ge> 1000000\<close> of at most 4300 digits (and \<open>v\<close> and \<open>p\<close>
  within the same limit) the \<open>studyid\<close> is \<open>phs\<close> followed by the whole decimal
  numeral of \<open>id\<close>: it is longer than nine characters, and reading its digits back
  gives \<open>id\<close>. An \<open>id\<close> of more than 4300 digits gives no \<open>studyid\<close>: the
  constructor raises \<open>ValueError\<close>.
\<close>

theorem studyid_not_truncated:
  assumes "1000000 \<le> i" and "i < 10 ^ int_max_str_digits"
    and "\<bar>v\<bar> < 10 ^ int_max_str_digits" and "\<bar>p\<bar> < 10 ^ int_max_str_digits"
  shows "\<exists>self h'. StudyIdentifier (PInt i) (PInt v) (PInt p) h = (Inr self, h') \<and>
    attr_lookup h' self ''studyid'' = Inr (PStr (''phs'' @ decimal (nat i))) \<and>
    9 < length (''phs'' @ decimal (nat i)) \<and>
    decimal_value (decimal (nat i)) = nat i"
proof -
  from assms have "10 ^ 6 \<le> nat i" by simp
  then have long: "6 < length (decimal (nat i))" by (rule length_decimal_gt)
  from assms have i: "\<bar>i\<bar> < 10 ^ int_max_str_digits" by simp
  from assms(1) long show ?thesis
    by (simp add: StudyIdentifier_ints [OF i assms(3) assms(4)] instance_lookup zero_fill_wide
        decimal_value_decimal)
qed

theorem studyid_not_truncated_witness:
  "(1000000::int) \<le> 1234567 \<and> (1234567::int) < 10 ^ int_max_str_digits \<and>
   \<bar>4::int\<bar> < 10 ^ int_max_str_digits \<and> \<bar>5::int\<bar> < 10 ^ int_max_str_digits \<and>
   (\<exists>self h'. StudyIdentifier (PInt 1234567) (PInt 4) (PInt 5) [] = (Inr self, h') \<and>
      attr_lookup h' self ''studyid'' = Inr (PStr ''phs1234567''))"
proof -
  have bounds: "\<bar>1234567 :: int\<bar> < 10 ^ int_max_str_digits" "\<bar>4::int\<bar> < 10 ^ int_max_str_digits"
    "\<bar>5::int\<bar> < 10 ^ int_max_str_digits"
    by (rule below_limit [of 7], simp add: int_max_str_digits_def, simp)+
  then have "(1234567::int) < 10 ^ int_max_str_digits" by simp
  from studyid_not_truncated [OF _ this bounds(2) bounds(3), of "[]"] bounds show ?thesis
    by (auto simp: decimal.simps digit_char_def)
qed

theorem studyid_not_truncated_counterexample:
  "(1000000::int) \<le> 10 ^ 4300 \<and>
   fst (StudyIdentifier (PInt (10 ^ 4300)) (PInt 4) (PInt 5) []) = Inl ValueError"
proof -
  have "10 ^ int_max_str_digits \<le> \<bar>(10::int) ^ int_max_str_digits\<bar>"
    by (simp only: power_limit_nonneg)
  then have "fst (StudyIdentifier (PInt (10 ^ int_max_str_digits)) (PInt 4) (PInt 5) []) =
    Inl ValueError"
    by (intro StudyIdentifier_ValueError disjI1)
  then have raised: "fst (StudyIdentifier (PInt (10 ^ 4300)) (PInt 4) (PInt 5) []) = Inl ValueError"
    unfolding int_max_str_digits_def .
  from million_below_limit have large: "(1000000::int) \<le> 10 ^ 4300"
    unfolding int_max_str_digits_def by (rule less_imp_le)
  from large raised show ?thesis by (intro conjI)
qed


section \<open>Properties of biocaddie_json\<close>

lemmas new_eval = attr_lookup_def list_items_def deref_def nth_append

text \<open>
  C2 (amended). When the raw document has the four fields, its accession is a string
  and the pht entries are a list of strings, \<open>biocaddie_json\<close> returns a document with
  \<open>@type\<close> \<open>Study\<close>, \<open>identifierInfo\<close> a list of one dictionary made of the prefixed
  accession and the scheme \<open>dbGaP\<close>, \<open>title\<close>, \<open>description\<close> and \<open>study_types\<close>
  the values found in the raw document, and \<open>resultsIn\<close> the prefixed pht entries.
\<close>

theorem biocaddie_json_fields:
  assumes "field_at h raw_json accession_path = Inr (PStr accession)"
    and "field_at h raw_json title_path = Inr title"
    and "field_at h raw_json description_path = Inr description"
    and "field_at h raw_json study_types_path = Inr study_types"
    and "list_items h pht_entries = Inr (map PStr phts)"
  shows "\<exists>r h' infos info results.
    biocaddie_json DBGAP raw_json pht_entries h = (Inr r, h') \<and>
    attr_lookup h' r ''@type'' = Inr (PStr ''Study'') \<and>
    attr_lookup h' r ''identifierInfo'' = Inr infos \<and>
    list_items h' infos = Inr [PRef info] \<and>
    deref h' info = Some (PyDict [(''identifier'', PStr (DBGAP @ accession)),
                                  (''identifierScheme'', PStr ''dbGaP'')]) \<and>
    attr_lookup h' r ''title'' = Inr title \<and>
    attr_lookup h' r ''description'' = Inr description \<and>
    attr_lookup h' r ''study_types'' = Inr study_types \<and>
    attr_lookup h' r ''resultsIn'' = Inr results \<and>
    list_items h' results = Inr (map (\<lambda>pht. PStr (DBGAP @ pht)) phts)"
  by (simp add: biocaddie_json_paths [OF assms] new_eval)

theorem biocaddie_json_fields_witness:
  "\<forall>D. \<exists>r h' infos info results.
    biocaddie_json D (PRef 0) (PRef 7) example_heap = (Inr r, h') \<and>
    attr_lookup h' r ''@type'' = Inr (PStr ''Study'') \<and>
    attr_lookup h' r ''identifierInfo'' = Inr infos \<and>
    list_items h' infos = Inr [PRef info] \<and>
    deref h' info = Some (PyDict [(''identifier'', PStr (D @ ''phs000123.v4.p5'')),
                                  (''identifierScheme'', PStr ''dbGaP'')]) \<and>
    attr_lookup h' r ''title'' = Inr (PStr ''Example Study'') \<and>
    attr_lookup h' r ''description'' = Inr (PStr ''An example.'') \<and>
    attr_lookup h' r ''study_types'' = Inr (PRef 6) \<and>
    deref h' 6 = Some (PyList [PStr ''Case Set'']) \<and>
    attr_lookup h' r ''resultsIn'' = Inr results \<and>
    list_items h' results = Inr [PStr (D @ ''pht000111''), PStr (D @ ''pht000112'')]"
proof
  fix D
  have "field_at example_heap (PRef 0) accession_path = Inr (PStr ''phs000123.v4.p5'')"
    and "field_at example_heap (PRef 0) title_path = Inr (PStr ''Example Study'')"
    and "field_at example_heap (PRef 0) description_path = Inr (PStr ''An example.'')"
    and "field_at example_heap (PRef 0) study_types_path = Inr (PRef 6)"
    and "list_items example_heap (PRef 7) = Inr (map PStr [''pht000111'', ''pht000112''])"
    by (simp_all add: example_heap_def path_defs heap_eval)
  from biocaddie_json_fields [OF this, of D]
  obtain r h' infos info results where
    run: "biocaddie_json D (PRef 0) (PRef 7) example_heap = (Inr r, h')" and
    rest: "attr_lookup h' r ''@type'' = Inr (PStr ''Study'')"
      "attr_lookup h' r ''identifierInfo'' = Inr infos"
      "list_items h' infos = Inr [PRef info]"
      "deref h' info = Some (PyDict [(''identifier'', PStr (D @ ''phs000123.v4.p5'')),
                                  (''identifierScheme'', PStr ''dbGaP'')])"
      "attr_lookup h' r ''title'' = Inr (PStr ''Example Study'')"
      "attr_lookup h' r ''description'' = Inr (PStr ''An example.'')"
      "attr_lookup h' r ''study_types'' = Inr (PRef 6)"
      "attr_lookup h' r ''resultsIn'' = Inr results"
      "list_items h' results = Inr (map (\<lambda>pht. PStr (D @ pht)) [''pht000111'', ''pht000112''])"
    by blast
  from biocaddie_json_frame [of D "PRef 0" "PRef 7" example_heap] run
  obtain ext where "h' = example_heap @ ext" by auto
  then have "deref h' 6 = Some (PyList [PStr ''Case Set''])"
    by (simp add: example_heap_def deref_def)
  with run rest show "\<exists>r h' infos info results.
    biocaddie_json D (PRef 0) (PRef 7) example_heap = (Inr r, h') \<and>
    attr_lookup h' r ''@type'' = Inr (PStr ''Study'') \<and>
    attr_lookup h' r ''identifierInfo'' = Inr infos \<and>
    list_items h' infos = Inr [PRef info] \<and>
    deref h' info = Some (PyDict [(''identifier'', PStr (D @ ''phs000123.v4.p5'')),
                                  (''identifierScheme'', PStr ''dbGaP'')]) \<and>
    attr_lookup h' r ''title'' = Inr (PStr ''Example Study'') \<and>
    attr_lookup h' r ''description'' = Inr (PStr ''An example.'') \<and>
    attr_lookup h' r ''study_types'' = Inr (PRef 6) \<and>
    deref h' 6 = Some (PyList [PStr ''Case Set'']) \<and>
    attr_lookup h' r ''resultsIn'' = Inr results \<and>
    list_items h' results = Inr [PStr (D @ ''pht000111''), PStr (D @ ''pht000112'')]"
    by auto
qed

theorem biocaddie_json_fields_counterexample:
  "field_at (example_heap[3 := JsonObj [(''accession'', PInt 5), (''Configuration'', PRef 4)]])
     (PRef 0) accession_path = Inr (PInt 5) \<and>
   field_at (example_heap[3 := JsonObj [(''accession'', PInt 5), (''Configuration'', PRef 4)]])
     (PRef 0) title_path = Inr (PStr ''Example Study'') \<and>
   field_at (example_heap[3 := JsonObj [(''accession'', PInt 5), (''Configuration'', PRef 4)]])
     (PRef 0) description_path = Inr (PStr ''An example.'') \<and>
   field_at (example_heap[3 := JsonObj [(''accession'', PInt 5), (''Configuration'', PRef 4)]])
     (PRef 0) study_types_path = Inr (PRef 6) \<and>
   fst (biocaddie_json ''dbgap:'' (PRef 0) (PRef 7)
     (example_heap[3 := JsonObj [(''accession'', PInt 5), (''Configuration'', PRef 4)]])) = Inl TypeError"
  by (simp add: example_heap_def path_defs heap_eval biocaddie_json_def py_defs)

lemma biocaddie_json_Inr_run:
  assumes "biocaddie_json D raw pht h = (Inr r, h')"
  shows "\<exists>a t d st ps.
    list_items h pht = Inr (map PStr ps) \<and>
    r = PRef (length h) \<and>
    h' = h @ [JsonObj [(''@type'', PStr ''Study''),
                   (''identifierInfo'', PRef (Suc (Suc (length h)))),
                   (''title'', t), (''description'', d), (''study_types'', st),
                   (''resultsIn'', PRef (Suc (Suc (Suc (length h)))))],
          PyDict [(''identifier'', PStr (D @ a)), (''identifierScheme'', PStr ''dbGaP'')],
          PyList [PRef (Suc (length h))],
          PyList (map (\<lambda>s. PStr (D @ s)) ps)]"
proof -
  from biocaddie_json_Inr_paths [OF assms] obtain a t d st ps where
    paths: "field_at h raw accession_path = Inr (PStr a)"
      "field_at h raw title_path = Inr t"
      "field_at h raw description_path = Inr d"
      "field_at h raw study_types_path = Inr st"
      "list_items h pht = Inr (map PStr ps)"
    by blast
  from biocaddie_json_paths [OF paths, of D] assms
  have "r = PRef (length h) \<and>
    h' = h @ [JsonObj [(''@type'', PStr ''Study''),
                   (''identifierInfo'', PRef (Suc (Suc (length h)))),
                   (''title'', t), (''description'', d), (''study_types'', st),
                   (''resultsIn'', PRef (Suc (Suc (Suc (length h)))))],
          PyDict [(''identifier'', PStr (D @ a)), (''identifierScheme'', PStr ''dbGaP'')],
          PyList [PRef (Suc (length h))],
          PyList (map (\<lambda>s. PStr (D @ s)) ps)]"
    by simp
  with paths(5) show ?thesis by blast
qed

text \<open>
  C3. Whenever \<open>biocaddie_json\<close> returns a document for a list of pht entries, the
  entries are strings, and \<open>resultsIn\<close> of the document is a list of the same
  length that holds each entry with the prefix in front, in the order of the input.
\<close>

theorem resultsIn_prefixed_in_order:
  assumes "biocaddie_json DBGAP raw_json pht_entries h = (Inr r, h')"
    and "list_items h pht_entries = Inr xs"
  shows "\<exists>phts results prefixed.
    xs = map PStr phts \<and>
    attr_lookup h' r ''resultsIn'' = Inr results \<and>
    list_items h' results = Inr prefixed \<and>
    prefixed = map (\<lambda>pht. PStr (DBGAP @ pht)) phts \<and>
    length prefixed = length xs"
proof -
  from biocaddie_json_Inr_run [OF assms(1)] obtain a t d st ps where
    "list_items h pht_entries = Inr (map PStr ps)" "r = PRef (length h)"
    "h' = h @ [JsonObj [(''@type'', PStr ''Study''),
                   (''identifierInfo'', PRef (Suc (Suc (length h)))),
                   (''title'', t), (''description'', d), (''study_types'', st),
                   (''resultsIn'', PRef (Suc (Suc (Suc (length h)))))],
          PyDict [(''identifier'', PStr (DBGAP @ a)), (''identifierScheme'', PStr ''dbGaP'')],
          PyList [PRef (Suc (length h))],
          PyList (map (\<lambda>s. PStr (DBGAP @ s)) ps)]"
    by blast
  with assms(2) have "xs = map PStr ps \<and>
    attr_lookup h' r ''resultsIn'' = Inr (PRef (Suc (Suc (Suc (length h))))) \<and>
    list_items h' (PRef (Suc (Suc (Suc (length h))))) = Inr (map (\<lambda>pht. PStr (DBGAP @ pht)) ps) \<and>
    map (\<lambda>pht. PStr (DBGAP @ pht)) ps = map (\<lambda>pht. PStr (DBGAP @ pht)) ps \<and>
    length (map (\<lambda>pht. PStr (DBGAP @ pht)) ps) = length xs"
    by (auto simp: new_eval)
  then show ?thesis by blast
qed

theorem resultsIn_prefixed_in_order_witness:
  "\<exists>r h' results.
    biocaddie_json ''dbgap:'' (PRef 0) (PRef 7) example_heap = (Inr r, h') \<and>
    list_items example_heap (PRef 7) = Inr [PStr ''pht000111'', PStr ''pht000112''] \<and>
    attr_lookup h' r ''resultsIn'' = Inr results \<and>
    list_items h' results = Inr [PStr ''dbgap:pht000111'', PStr ''dbgap:pht000112'']"
proof -
  have "fst (biocaddie_json ''dbgap:'' (PRef 0) (PRef 7) example_heap) = Inr (PRef 8)"
    by (simp add: example_heap_def heap_eval biocaddie_json_def py_defs)
  then obtain H where run: "biocaddie_json ''dbgap:'' (PRef 0) (PRef 7) example_heap = (Inr (PRef 8), H)"
    by (cases "biocaddie_json ''dbgap:'' (PRef 0) (PRef 7) example_heap") simp
  have items: "list_items example_heap (PRef 7) = Inr [PStr ''pht000111'', PStr ''pht000112'']"
    by (simp add: example_heap_def heap_eval)
  from resultsIn_prefixed_in_order [OF run items] obtain phts results prefixed where
    phts: "[PStr ''pht000111'', PStr ''pht000112''] = map PStr phts" and
    res: "attr_lookup H (PRef 8) ''resultsIn'' = Inr results" and
    pre: "list_items H results = Inr prefixed" and
    eq: "prefixed = map (\<lambda>pht. PStr (''dbgap:'' @ pht)) phts"
    by (elim exE conjE) (rule that, assumption+)
  from phts have "phts = [''pht000111'', ''pht000112'']"
    by (auto simp: Cons_eq_map_conv)
  with pre eq have "list_items H results = Inr [PStr ''dbgap:pht000111'', PStr ''dbgap:pht000112'']"
    by simp
  with run items res show ?thesis by simp
qed

text \<open>
  C4. Every document that \<open>biocaddie_json\<close> returns is a \<open>JsonObj\<close> with the six keys
  \<open>@type\<close>, \<open>identifierInfo\<close>, \<open>title\<close>, \<open>description\<close>, \<open>study_types\<close> and
  \<open>resultsIn\<close>, and no other key, whatever the inputs hold.
\<close>

theorem biocaddie_json_six_keys:
  assumes "biocaddie_json DBGAP raw_json pht_entries h = (Inr r, h')"
  shows "\<exists>a kvs. r = PRef a \<and> deref h' a = Some (JsonObj kvs) \<and>
    map fst kvs =
      [''@type'', ''identifierInfo'', ''title'', ''description'', ''study_types'', ''resultsIn'']"
proof -
  from biocaddie_json_Inr_run [OF assms] obtain a t d st ps where
    "r = PRef (length h)"
    "h' = h @ [JsonObj [(''@type'', PStr ''Study''),
                   (''identifierInfo'', PRef (Suc (Suc (length h)))),
                   (''title'', t), (''description'', d), (''study_types'', st),
                   (''resultsIn'', PRef (Suc (Suc (Suc (length h)))))],
          PyDict [(''identifier'', PStr (DBGAP @ a)), (''identifierScheme'', PStr ''dbGaP'')],
          PyList [PRef (Suc (length h))],
          PyList (map (\<lambda>s. PStr (DBGAP @ s)) ps)]"
    by blast
  then show ?thesis by (simp add: deref_append_length)
qed

theorem biocaddie_json_six_keys_witness:
  "\<exists>a h' kvs.
    biocaddie_json ''dbgap:'' (PRef 0) (PRef 7) example_heap = (Inr (PRef a), h') \<and>
    deref h' a = Some (JsonObj kvs) \<and>
    map fst kvs =
      [''@type'', ''identifierInfo'', ''title'', ''description'', ''study_types'', ''resultsIn'']"
proof -
  have "fst (biocaddie_json ''dbgap:'' (PRef 0) (PRef 7) example_heap) = Inr (PRef 8)"
    by (simp add: example_heap_def heap_eval biocaddie_json_def py_defs)
  then obtain H where run: "biocaddie_json ''dbgap:'' (PRef 0) (PRef 7) example_heap = (Inr (PRef 8), H)"
    by (cases "biocaddie_json ''dbgap:'' (PRef 0) (PRef 7) example_heap") simp
  from biocaddie_json_six_keys [OF run] obtain kvs where
    "deref H 8 = Some (JsonObj kvs)"
    "map fst kvs =
      [''@type'', ''identifierInfo'', ''title'', ''description'', ''study_types'', ''resultsIn'']"
    by auto
  with run show ?thesis by simp
qed

lemma same_snapshot:
  fixes la lb ia ib xa xb :: addr
  assumes "deref H ra = Some (JsonObj [(''@type'', ty), (''identifierInfo'', PRef la),
      (''title'', t), (''description'', d), (''study_types'', st), (''resultsIn'', PRef xa)])"
    and "deref H rb = Some (JsonObj [(''@type'', ty), (''identifierInfo'', PRef lb),
      (''title'', t), (''description'', d), (''study_types'', st), (''resultsIn'', PRef xb)])"
    and "deref H la = Some (PyList [PRef ia])" and "deref H lb = Some (PyList [PRef ib])"
    and "deref H ia = Some (PyDict kvs)" and "deref H ib = Some (PyDict kvs)"
    and "deref H xa = Some (PyList ys)" and "deref H xb = Some (PyList ys)"
  shows "snapshot n H (PRef ra) = snapshot n H (PRef rb)"
proof -
  have info: "snapshot m H (PRef ia) = snapshot m H (PRef ib)" for m
    by (cases m) (simp_all add: assms)
  have infos: "snapshot m H (PRef la) = snapshot m H (PRef lb)" for m
    by (cases m) (simp_all add: assms info)
  have results: "snapshot m H (PRef xa) = snapshot m H (PRef xb)" for m
    by (cases m) (simp_all add: assms)
  show ?thesis
    by (cases n) (simp_all add: assms infos results)
qed

text \<open>
  C5. A call of \<open>biocaddie_json\<close> changes no object that existed before it: the heap
  after the call is the heap before it with new objects at the end, also when the call
  raises. When a call returns a document, a second call with the same arguments returns
  a document too, and the two documents are structurally equal.
\<close>

theorem biocaddie_json_repeatable:
  "prefix h (snd (biocaddie_json DBGAP raw_json pht_entries h)) \<and>
   (\<forall>r1 h1. biocaddie_json DBGAP raw_json pht_entries h = (Inr r1, h1) \<longrightarrow>
      (\<exists>r2 h2. biocaddie_json DBGAP raw_json pht_entries h1 = (Inr r2, h2) \<and>
         prefix h1 h2 \<and> (\<forall>n. snapshot n h2 r1 = snapshot n h2 r2)))"
proof (intro conjI allI impI)
  from biocaddie_json_frame [of DBGAP raw_json pht_entries h]
  show "prefix h (snd (biocaddie_json DBGAP raw_json pht_entries h))"
    by (auto simp: prefix_def)
next
  fix r1 h1
  assume run1: "biocaddie_json DBGAP raw_json pht_entries h = (Inr r1, h1)"
  from biocaddie_json_Inr [OF run1] obtain g ss study a c t d ts st ps where
    looks: "attr_lookup h raw_json ''GaPExchange'' = Inr g"
      "attr_lookup h g ''Studies'' = Inr ss"
      "attr_lookup h ss ''Study'' = Inr study"
      "attr_lookup h study ''accession'' = Inr (PStr a)"
      "attr_lookup h study ''Configuration'' = Inr c"
      "attr_lookup h c ''StudyNameEntrez'' = Inr t"
      "attr_lookup h c ''StudyNameReportPage'' = Inr d"
      "attr_lookup h c ''StudyTypes'' = Inr ts"
      "attr_lookup h ts ''StudyType'' = Inr st"
    and items: "list_items h pht_entries = Inr (map PStr ps)"
    by blast
  let ?new = "\<lambda>n. [JsonObj [(''@type'', PStr ''Study''),
                   (''identifierInfo'', PRef (Suc (Suc n))),
                   (''title'', t), (''description'', d), (''study_types'', st),
                   (''resultsIn'', PRef (Suc (Suc (Suc n))))],
          PyDict [(''identifier'', PStr (DBGAP @ a)), (''identifierScheme'', PStr ''dbGaP'')],
          PyList [PRef (Suc n)],
          PyList (map (\<lambda>s. PStr (DBGAP @ s)) ps)]"
  from biocaddie_json_run [OF looks items, of DBGAP] run1
  have r1: "r1 = PRef (length h)" and h1: "h1 = h @ ?new (length h)"
    by simp_all
  have looks1: "attr_lookup h1 raw_json ''GaPExchange'' = Inr g"
      "attr_lookup h1 g ''Studies'' = Inr ss"
      "attr_lookup h1 ss ''Study'' = Inr study"
      "attr_lookup h1 study ''accession'' = Inr (PStr a)"
      "attr_lookup h1 study ''Configuration'' = Inr c"
      "attr_lookup h1 c ''StudyNameEntrez'' = Inr t"
      "attr_lookup h1 c ''StudyNameReportPage'' = Inr d"
      "attr_lookup h1 c ''StudyTypes'' = Inr ts"
      "attr_lookup h1 ts ''StudyType'' = Inr st"
    by (simp_all add: h1 attr_lookup_append looks)
  have items1: "list_items h1 pht_entries = Inr (map PStr ps)"
    unfolding h1 using items by (rule list_items_append)
  let ?h2 = "h1 @ ?new (length h1)"
  have run2: "biocaddie_json DBGAP raw_json pht_entries h1 = (Inr (PRef (length h1)), ?h2)"
    using biocaddie_json_run [OF looks1 items1, of DBGAP] by simp
  have same: "snapshot n ?h2 r1 = snapshot n ?h2 (PRef (length h1))" for n
    unfolding r1
    by (rule same_snapshot [where la = "Suc (Suc (length h))" and lb = "Suc (Suc (length h1))"
          and ia = "Suc (length h)" and ib = "Suc (length h1)"
          and xa = "Suc (Suc (Suc (length h)))" and xb = "Suc (Suc (Suc (length h1)))"])
       (simp_all add: h1 deref_def nth_append)
  have "prefix h1 ?h2" by simp
  with run2 same
  show "\<exists>r2 h2. biocaddie_json DBGAP raw_json pht_entries h1 = (Inr r2, h2) \<and>
         prefix h1 h2 \<and> (\<forall>n. snapshot n h2 r1 = snapshot n h2 r2)"
    by blast
qed

theorem biocaddie_json_repeatable_witness:
  "\<exists>r1 h1 r2 h2.
     biocaddie_json ''dbgap:'' (PRef 0) (PRef 7) example_heap = (Inr r1, h1) \<and>
     prefix example_heap h1 \<and>
     biocaddie_json ''dbgap:'' (PRef 0) (PRef 7) h1 = (Inr r2, h2) \<and>
     prefix h1 h2 \<and>
     snapshot 3 h2 r1 = snapshot 3 h2 r2 \<and>
     snapshot 3 h2 r1 =
       JObject [(''@type'', JStr ''Study''),
                (''identifierInfo'',
                   JArr [JObject [(''identifier'', JStr ''dbgap:phs000123.v4.p5''),
                                  (''identifierScheme'', JStr ''dbGaP'')]]),
                (''title'', JStr ''Example Study''),
                (''description'', JStr ''An example.''),
                (''study_types'', JArr [JStr ''Case Set'']),
                (''resultsIn'', JArr [JStr ''dbgap:pht000111'', JStr ''dbgap:pht000112''])]"
proof -
  let ?H1 = "example_heap @ [JsonObj [(''@type'', PStr ''Study''),
                   (''identifierInfo'', PRef 10),
                   (''title'', PStr ''Example Study''), (''description'', PStr ''An example.''),
                   (''study_types'', PRef 6), (''resultsIn'', PRef 11)],
          PyDict [(''identifier'', PStr ''dbgap:phs000123.v4.p5''), (''identifierScheme'', PStr ''dbGaP'')],
          PyList [PRef 9],
          PyList [PStr ''dbgap:pht000111'', PStr ''dbgap:pht000112'']]"
  have len: "length example_heap = 8" by (simp add: example_heap_def)
  have looks: "field_at example_heap (PRef 0) accession_path = Inr (PStr ''phs000123.v4.p5'')"
    "field_at example_heap (PRef 0) title_path = Inr (PStr ''Example Study'')"
    "field_at example_heap (PRef 0) description_path = Inr (PStr ''An example.'')"
    "field_at example_heap (PRef 0) study_types_path = Inr (PRef 6)"
    "list_items example_heap (PRef 7) = Inr (map PStr [''pht000111'', ''pht000112''])"
    by (simp_all add: example_heap_def path_defs heap_eval)
  have run1: "biocaddie_json ''dbgap:'' (PRef 0) (PRef 7) example_heap = (Inr (PRef 8), ?H1)"
    by (simp add: biocaddie_json_paths [OF looks] len)
  note inst = biocaddie_json_repeatable [of example_heap "''dbgap:''" "PRef 0" "PRef 7"]
  from inst run1 have pre1: "prefix example_heap ?H1" by simp
  from inst have "\<exists>r2 h2. biocaddie_json ''dbgap:'' (PRef 0) (PRef 7) ?H1 = (Inr r2, h2) \<and>
         prefix ?H1 h2 \<and> (\<forall>n. snapshot n h2 (PRef 8) = snapshot n h2 r2)"
    using run1 by simp
  then obtain r2 h2 where
    run2: "biocaddie_json ''dbgap:'' (PRef 0) (PRef 7) ?H1 = (Inr r2, h2)" and
    pre2: "prefix ?H1 h2" and
    same: "snapshot 3 h2 (PRef 8) = snapshot 3 h2 r2"
    by auto
  from pre2 obtain ext where h2: "h2 = ?H1 @ ext" by (auto simp: prefix_def)
  have snap: "snapshot 3 h2 (PRef 8) =
       JObject [(''@type'', JStr ''Study''),
                (''identifierInfo'',
                   JArr [JObject [(''identifier'', JStr ''dbgap:phs000123.v4.p5''),
                                  (''identifierScheme'', JStr ''dbGaP'')]]),
                (''title'', JStr ''Example Study''),
                (''description'', JStr ''An example.''),
                (''study_types'', JArr [JStr ''Case Set'']),
                (''resultsIn'', JArr [JStr ''dbgap:pht000111'', JStr ''dbgap:pht000112''])]"
    by (simp add: h2 example_heap_def deref_def nth_append numeral_3_eq_3)
  from run1 pre1 run2 pre2 same snap show ?thesis by simp
qed

lemma biocaddie_json_TypeError_lookups:
  assumes "fst (biocaddie_json D raw pht h) = Inl TypeError"
  shows "(\<exists>g ss study v.
      attr_lookup h raw ''GaPExchange'' = Inr g \<and>
      attr_lookup h g ''Studies'' = Inr ss \<and>
      attr_lookup h ss ''Study'' = Inr study \<and>
      attr_lookup h study ''accession'' = Inr v \<and> (\<forall>s. v \<noteq> PStr s)) \<or>
    (\<exists>g ss study a c t d ts st.
      attr_lookup h raw ''GaPExchange'' = Inr g \<and>
      attr_lookup h g ''Studies'' = Inr ss \<and>
      attr_lookup h ss ''Study'' = Inr study \<and>
      attr_lookup h study ''accession'' = Inr a \<and>
      attr_lookup h study ''Configuration'' = Inr c \<and>
      attr_lookup h c ''StudyNameEntrez'' = Inr t \<and>
      attr_lookup h c ''StudyNameReportPage'' = Inr d \<and>
      attr_lookup h c ''StudyTypes'' = Inr ts \<and>
      attr_lookup h ts ''StudyType'' = Inr st)"
  using assms
  by (auto simp: biocaddie_json_def py_defs attr_lookup_append deref_append_length
      split: sum.splits dest: attr_lookup_error str_add_Inr)

text \<open>No step of \<open>biocaddie_json\<close> converts a number: it never raises \<open>ValueError\<close>.\<close>

lemma biocaddie_json_not_ValueError:
  "fst (biocaddie_json D raw pht h) \<noteq> Inl ValueError"
  by (auto simp: biocaddie_json_def py_defs attr_lookup_append deref_append_length
      split: sum.splits
      dest: attr_lookup_error str_add_error list_items_error list_comp_str_add_error)

lemma biocaddie_json_TypeError:
  assumes "fst (biocaddie_json D raw pht h) = Inl TypeError"
  shows "(\<exists>v. field_at h raw accession_path = Inr v \<and> (\<forall>s. v \<noteq> PStr s)) \<or>
    (\<not> isl (field_at h raw accession_path) \<and> \<not> isl (field_at h raw title_path) \<and>
     \<not> isl (field_at h raw description_path) \<and> \<not> isl (field_at h raw study_types_path))"
  using biocaddie_json_TypeError_lookups [OF assms]
  by (elim disjE exE conjE) (simp_all add: path_defs)

lemma biocaddie_json_accession_type:
  assumes "field_at h raw accession_path = Inr v" and "\<forall>s. v \<noteq> PStr s"
  shows "fst (biocaddie_json D raw pht h) = Inl TypeError"
proof -
  from assms(1) obtain g ss study where
    "attr_lookup h raw ''GaPExchange'' = Inr g"
    "attr_lookup h g ''Studies'' = Inr ss"
    "attr_lookup h ss ''Study'' = Inr study"
    "attr_lookup h study ''accession'' = Inr v"
    by (auto simp: path_defs split: sum.splits)
  moreover from assms(2) have "str_add D v = Inl TypeError" by (cases v) simp_all
  ultimately show ?thesis
    by (simp add: biocaddie_json_def py_defs attr_lookup_append deref_append_length)
qed

text \<open>
  C6 (amended). When one of the four fields that \<open>biocaddie_json\<close> reads is absent
  from the raw document, the call raises and returns no document. The exception is the
  \<open>AttributeError\<close> of a field access, unless the accession is present and is not a
  string: then it is the \<open>TypeError\<close> of the concatenation.
\<close>

theorem missing_field_raises:
  assumes "isl (field_at h raw_json accession_path) \<or> isl (field_at h raw_json title_path) \<or>
    isl (field_at h raw_json description_path) \<or> isl (field_at h raw_json study_types_path)"
  shows "(\<exists>e. fst (biocaddie_json DBGAP raw_json pht_entries h) = Inl e) \<and>
    ((\<forall>v. field_at h raw_json accession_path = Inr v \<longrightarrow> (\<exists>s. v = PStr s)) \<longrightarrow>
     (\<exists>name. fst (biocaddie_json DBGAP raw_json pht_entries h) = Inl (AttributeError name))) \<and>
    (\<forall>v. field_at h raw_json accession_path = Inr v \<and> (\<forall>s. v \<noteq> PStr s) \<longrightarrow>
     fst (biocaddie_json DBGAP raw_json pht_entries h) = Inl TypeError)"
proof -
  obtain res h' where run: "biocaddie_json DBGAP raw_json pht_entries h = (res, h')"
    by (cases "biocaddie_json DBGAP raw_json pht_entries h")
  have raised: "\<exists>e. res = Inl e"
  proof (cases res)
    case (Inl e)
    then show ?thesis by simp
  next
    case (Inr r)
    with run have "biocaddie_json DBGAP raw_json pht_entries h = (Inr r, h')" by simp
    from biocaddie_json_Inr_paths [OF this] assms show ?thesis by auto
  qed
  then obtain e where e: "res = Inl e" by blast
  have "\<exists>name. res = Inl (AttributeError name)"
    if str: "\<forall>v. field_at h raw_json accession_path = Inr v \<longrightarrow> (\<exists>s. v = PStr s)"
  proof (cases e)
    case (AttributeError name)
    with e show ?thesis by simp
  next
    case TypeError
    with e run have "fst (biocaddie_json DBGAP raw_json pht_entries h) = Inl TypeError" by simp
    from biocaddie_json_TypeError [OF this] str assms show ?thesis by auto
  next
    case ValueError
    with e run have "fst (biocaddie_json DBGAP raw_json pht_entries h) = Inl ValueError" by simp
    with biocaddie_json_not_ValueError [of DBGAP raw_json pht_entries h] show ?thesis by simp
  qed
  moreover have "\<forall>v. field_at h raw_json accession_path = Inr v \<and> (\<forall>s. v \<noteq> PStr s) \<longrightarrow>
     fst (biocaddie_json DBGAP raw_json pht_entries h) = Inl TypeError"
    using biocaddie_json_accession_type by blast
  ultimately show ?thesis using raised run by simp
qed

theorem missing_field_raises_witness:
  "isl (field_at (example_heap[4 := JsonObj [(''StudyNameReportPage'', PStr ''An example.''),
                                              (''StudyTypes'', PRef 5)]])
          (PRef 0) title_path) \<and>
   field_at (example_heap[4 := JsonObj [(''StudyNameReportPage'', PStr ''An example.''),
                                         (''StudyTypes'', PRef 5)]])
     (PRef 0) accession_path = Inr (PStr ''phs000123.v4.p5'') \<and>
   fst (biocaddie_json ''dbgap:'' (PRef 0) (PRef 7)
          (example_heap[4 := JsonObj [(''StudyNameReportPage'', PStr ''An example.''),
                                      (''StudyTypes'', PRef 5)]])) =
     Inl (AttributeError ''StudyNameEntrez'')"
proof -
  let ?h = "example_heap[4 := JsonObj [(''StudyNameReportPage'', PStr ''An example.''),
                                       (''StudyTypes'', PRef 5)]]"
  have absent: "isl (field_at ?h (PRef 0) title_path)"
    and acc: "field_at ?h (PRef 0) accession_path = Inr (PStr ''phs000123.v4.p5'')"
    by (simp_all add: example_heap_def path_defs heap_eval)
  from acc have str: "\<forall>v. field_at ?h (PRef 0) accession_path = Inr v \<longrightarrow> (\<exists>s. v = PStr s)"
    by simp
  from absent have "isl (field_at ?h (PRef 0) accession_path) \<or> isl (field_at ?h (PRef 0) title_path) \<or>
    isl (field_at ?h (PRef 0) description_path) \<or> isl (field_at ?h (PRef 0) study_types_path)"
    by simp
  from missing_field_raises [OF this, of "''dbgap:''" "PRef 7"] str
  obtain name where "fst (biocaddie_json ''dbgap:'' (PRef 0) (PRef 7) ?h) = Inl (AttributeError name)"
    by blast
  moreover have "fst (biocaddie_json ''dbgap:'' (PRef 0) (PRef 7) ?h) = Inl (AttributeError ''StudyNameEntrez'')"
    by (simp add: example_heap_def heap_eval biocaddie_json_def py_defs)
  ultimately show ?thesis using absent acc by simp
qed

theorem missing_field_raises_counterexample:
  "isl (field_at (example_heap[3 := JsonObj [(''accession'', PInt 5), (''Configuration'', PRef 4)],
                               4 := JsonObj [(''StudyNameReportPage'', PStr ''An example.''),
                                             (''StudyTypes'', PRef 5)]])
          (PRef 0) title_path) \<and>
   fst (biocaddie_json ''dbgap:'' (PRef 0) (PRef 7)
          (example_heap[3 := JsonObj [(''accession'', PInt 5), (''Configuration'', PRef 4)],
                        4 := JsonObj [(''StudyNameReportPage'', PStr ''An example.''),
                                      (''StudyTypes'', PRef 5)]])) =
     Inl TypeError"
  by (simp add: example_heap_def path_defs heap_eval biocaddie_json_def py_defs)

end
